theory Spec2Isabelle
  imports Main "HOL-Library.AList"
begin

section \<open>The Glue catalog of pyiceberg: data model\<close>

text \<open>
  A shallow embedding of \<^verbatim>\<open>src/pyiceberg/catalog/glue.py\<close>. Python strings are
  \<open>string\<close>; a Python \<^verbatim>\<open>dict\<close> with string keys is an association list in
  insertion order, read with \<open>map_of\<close> and written with \<open>AList.update\<close>
  (a key already present keeps its place, a new key goes last, as in Python); a
  \<^verbatim>\<open>TypedDict\<close> with optional keys is a record whose optional keys are
  \<open>option\<close> fields; an exception is a value of the datatype \<open>error\<close>, returned
  as \<open>Inl\<close>.
\<close>

subsection \<open>Constants imported from \<^verbatim>\<open>pyiceberg.catalog\<close>\<close>

text \<open>
  Modelled from the spec: the constants \<^verbatim>\<open>ICEBERG\<close>, \<^verbatim>\<open>TABLE_TYPE\<close>,
  \<^verbatim>\<open>METADATA_LOCATION\<close>, \<^verbatim>\<open>LOCATION\<close> and \<^verbatim>\<open>EXTERNAL_TABLE\<close> are imported
  from the package's \<^verbatim>\<open>__init__\<close>, which is not among the sources. The spec names
  them the format marker, the table-type key, the metadata-location key and the
  location key. Their values follow the source's own uses: the message of line 152
  prints the key as \<^verbatim>\<open>table_type\<close>, line 150 compares a lower-cased value with
  the marker, and line 473 writes the location under the literal key
  \<^verbatim>\<open>"location"\<close>.
\<close>

definition ICEBERG :: string where
  "ICEBERG = ''iceberg''"

definition TABLE_TYPE :: string where
  "TABLE_TYPE = ''table_type''"

definition METADATA_LOCATION :: string where
  "METADATA_LOCATION = ''metadata_location''"

definition LOCATION :: string where
  "LOCATION = ''location''"

definition EXTERNAL_TABLE :: string where
  "EXTERNAL_TABLE = ''EXTERNAL_TABLE''"

subsection \<open>Strings\<close>

text \<open>
  \<^verbatim>\<open>str.lower\<close> and \<^verbatim>\<open>str.upper\<close> on the ASCII letters; every other byte is
  kept. (No character outside ASCII lower-cases to a letter of the marker, so the
  comparison of line 150 is decided by the ASCII letters alone.)
\<close>

definition lower_char :: "char \<Rightarrow> char" where
  "lower_char c =
     (case map_of (zip ''ABCDEFGHIJKLMNOPQRSTUVWXYZ'' ''abcdefghijklmnopqrstuvwxyz'') c of
        None \<Rightarrow> c
      | Some d \<Rightarrow> d)"

definition upper_char :: "char \<Rightarrow> char" where
  "upper_char c =
     (case map_of (zip ''abcdefghijklmnopqrstuvwxyz'' ''ABCDEFGHIJKLMNOPQRSTUVWXYZ'') c of
        None \<Rightarrow> c
      | Some d \<Rightarrow> d)"

definition lower :: "string \<Rightarrow> string" where
  "lower s = map lower_char s"

definition upper :: "string \<Rightarrow> string" where
  "upper s = map upper_char s"

subsection \<open>Properties and backend entities\<close>

type_synonym properties = "(string \<times> string) list"

text \<open>
  The storage descriptor, the schema, the partition spec and the sort order are
  opaque to the catalog: each is carried as an uninterpreted token.
\<close>

type_synonym storage_descriptor = string
type_synonym schema = string
type_synonym partition_spec = string
type_synonym sort_order = string

text \<open>
  \<^verbatim>\<open>TableTypeDef\<close>, what \<^verbatim>\<open>get_table\<close> and \<^verbatim>\<open>get_tables\<close> return: the keys
  that the catalog reads. \<^verbatim>\<open>Name\<close> is required, the others may be absent.
\<close>

record glue_table =
  tbl_Name :: string
  tbl_DatabaseName :: "string option"
  tbl_TableType :: "string option"
  tbl_Owner :: "string option"
  tbl_Parameters :: "properties option"
  tbl_StorageDescriptor :: "storage_descriptor option"
  tbl_Description :: "string option"

text \<open>\<^verbatim>\<open>TableInputTypeDef\<close>, what \<^verbatim>\<open>create_table\<close> of the backend receives.\<close>

record table_input =
  ti_Name :: string
  ti_TableType :: "string option"
  ti_Owner :: "string option"
  ti_Parameters :: "properties option"
  ti_StorageDescriptor :: "storage_descriptor option"
  ti_Description :: "string option"

text \<open>
  \<^verbatim>\<open>DatabaseInputTypeDef\<close> and \<^verbatim>\<open>DatabaseTypeDef\<close>: the keys the catalog writes
  and reads are the same four.
\<close>

record database =
  db_Name :: string
  db_Description :: "string option"
  db_LocationUri :: "string option"
  db_Parameters :: "properties option"

subsection \<open>Errors\<close>

text \<open>
  The exceptions of the backend client: the three the source names, and any other
  (access denied, throttling, a service failure), carried with its name.
\<close>

datatype glue_exception =
    EntityNotFoundException
  | AlreadyExistsException
  | InvalidInputException
  | ClientError string

text \<open>
  The exceptions a catalog method can end with: the domain errors of
  \<^verbatim>\<open>pyiceberg.exceptions\<close> with their messages, Python's own, a backend exception
  that no handler caught, and a failure of the file access layer.
\<close>

datatype error =
    NoSuchPropertyException string
  | NoSuchIcebergTableError string
  | NoSuchTableError string
  | NoSuchNamespaceError string
  | TableAlreadyExistsError string
  | NamespaceAlreadyExistsError string
  | NamespaceNotEmptyError string
  | ValueError string
  | KeyError string
  | AssertionError
  | GlueError glue_exception
  | IOError string

section \<open>Entity translation\<close>

text \<open>Lines 68-69.\<close>

definition construct_parameters :: "string \<Rightarrow> properties" where
  "construct_parameters metadata_location =
     [(TABLE_TYPE, upper ICEBERG), (METADATA_LOCATION, metadata_location)]"

text \<open>Lines 72-82.\<close>

definition construct_create_table_input :: "string \<Rightarrow> string \<Rightarrow> properties \<Rightarrow> table_input" where
  "construct_create_table_input table_name metadata_location properties =
     (let table_input =
            \<lparr>ti_Name = table_name, ti_TableType = Some EXTERNAL_TABLE, ti_Owner = None,
             ti_Parameters = Some (construct_parameters metadata_location),
             ti_StorageDescriptor = None, ti_Description = None\<rparr>
      in case map_of properties ''Description'' of
           None \<Rightarrow> table_input
         | Some d \<Rightarrow> table_input\<lparr>ti_Description := Some d\<rparr>)"

text \<open>
  Lines 85-105. \<^verbatim>\<open>glue_table["TableType"]\<close> raises \<^verbatim>\<open>KeyError\<close> when the key is
  absent, and the assertion fails on an empty string.
\<close>

definition construct_rename_table_input :: "string \<Rightarrow> glue_table \<Rightarrow> error + table_input" where
  "construct_rename_table_input to_table_name glue_table =
     (let rename_table_input =
            \<lparr>ti_Name = to_table_name, ti_TableType = None, ti_Owner = None,
             ti_Parameters = None, ti_StorageDescriptor = None, ti_Description = None\<rparr>
      in case tbl_TableType glue_table of
           None \<Rightarrow> Inl (KeyError ''TableType'')
         | Some table_type \<Rightarrow>
             if table_type = [] then Inl AssertionError
             else
               let rename_table_input = rename_table_input\<lparr>ti_TableType := Some table_type\<rparr>;
                   rename_table_input =
                     (case tbl_Owner glue_table of
                        None \<Rightarrow> rename_table_input
                      | Some v \<Rightarrow> rename_table_input\<lparr>ti_Owner := Some v\<rparr>);
                   rename_table_input =
                     (case tbl_Parameters glue_table of
                        None \<Rightarrow> rename_table_input
                      | Some v \<Rightarrow> rename_table_input\<lparr>ti_Parameters := Some v\<rparr>);
                   rename_table_input =
                     (case tbl_StorageDescriptor glue_table of
                        None \<Rightarrow> rename_table_input
                      | Some v \<Rightarrow> rename_table_input\<lparr>ti_StorageDescriptor := Some v\<rparr>);
                   rename_table_input =
                     (case tbl_Description glue_table of
                        None \<Rightarrow> rename_table_input
                      | Some v \<Rightarrow> rename_table_input\<lparr>ti_Description := Some v\<rparr>)
               in Inr rename_table_input)"

text \<open>
  Lines 108-119. The loop over \<^verbatim>\<open>properties.items()\<close> is a fold over the
  association list; its state is the entity under construction and the
  \<^verbatim>\<open>parameters\<close> dictionary.
\<close>

definition database_input_step ::
  "string \<times> string \<Rightarrow> database \<times> properties \<Rightarrow> database \<times> properties" where
  "database_input_step kv acc =
     (case kv of (k, v) \<Rightarrow>
        (case acc of (database_input, parameters) \<Rightarrow>
           if k = ''Description'' then (database_input\<lparr>db_Description := Some v\<rparr>, parameters)
           else if k = LOCATION then (database_input\<lparr>db_LocationUri := Some v\<rparr>, parameters)
           else (database_input, AList.update k v parameters)))"

definition construct_database_input :: "string \<Rightarrow> properties \<Rightarrow> database" where
  "construct_database_input database_name properties =
     (case fold database_input_step properties
             (\<lparr>db_Name = database_name, db_Description = None, db_LocationUri = None,
               db_Parameters = None\<rparr>, [])
      of (database_input, parameters) \<Rightarrow> database_input\<lparr>db_Parameters := Some parameters\<rparr>)"

text \<open>
  Lines 469-477 of \<^verbatim>\<open>load_namespace_properties\<close>: the properties of a namespace
  entity that the backend returned.
\<close>

definition properties_of_database :: "database \<Rightarrow> properties" where
  "properties_of_database database =
     (let properties = (case db_Parameters database of None \<Rightarrow> [] | Some p \<Rightarrow> p);
          properties =
            (case db_LocationUri database of
               None \<Rightarrow> properties
             | Some l \<Rightarrow> AList.update ''location'' l properties);
          properties =
            (case db_Description database of
               None \<Rightarrow> properties
             | Some d \<Rightarrow> AList.update ''Description'' d properties)
      in properties)"

section \<open>Identifiers\<close>

text \<open>
  \<^verbatim>\<open>Union[str, Identifier]\<close>: an identifier is given as a dotted string or as a
  tuple of segments.
\<close>

datatype ident = IdStr string | IdTuple "string list"

text \<open>\<^verbatim>\<open>str.split(".")\<close>: the segments between the dots; no dot gives one segment.\<close>

fun split_dot :: "string \<Rightarrow> string list" where
  "split_dot [] = [[]]"
| "split_dot (c # cs) =
     (if c = CHR ''.'' then [] # split_dot cs
      else (case split_dot cs of [] \<Rightarrow> [[c]] | x # xs \<Rightarrow> (c # x) # xs))"

text \<open>
  Modelled from the spec: \<^verbatim>\<open>identifier_to_tuple\<close> is a method of the base class
  \<^verbatim>\<open>Catalog\<close>, which is not among the sources. The spec: an identifier is split
  on the structural separator.
\<close>

fun identifier_to_tuple :: "ident \<Rightarrow> string list" where
  "identifier_to_tuple (IdStr s) = split_dot s"
| "identifier_to_tuple (IdTuple t) = t"

text \<open>
  Modelled from the spec: \<^verbatim>\<open>identifier_to_tuple_without_catalog\<close> is a method of
  the base class. The spec speaks of the segments that remain; a table's
  identifier is built at line 165 as the catalog's name, the database and the
  table, so a leading segment that is the catalog's name is dropped from an
  identifier of three or more segments.
\<close>

definition identifier_to_tuple_without_catalog :: "string \<Rightarrow> ident \<Rightarrow> ident" where
  "identifier_to_tuple_without_catalog self_name identifier =
     (let identifier_tuple = identifier_to_tuple identifier
      in if 3 \<le> length identifier_tuple \<and> hd identifier_tuple = self_name
         then IdTuple (tl identifier_tuple)
         else IdTuple identifier_tuple)"

text \<open>
  Modelled from the spec: \<^verbatim>\<open>identifier_to_database\<close> is a method of the base
  class. The spec: a namespace reference is a single segment; zero segments and more
  than one segment fail. The exception class to raise is the caller's argument
  (\<^verbatim>\<open>ValueError\<close> when none is given).
\<close>

definition identifier_to_database :: "ident \<Rightarrow> (string \<Rightarrow> error) \<Rightarrow> error + string" where
  "identifier_to_database identifier err =
     (case identifier_to_tuple identifier of
        [database_name] \<Rightarrow> Inr database_name
      | _ \<Rightarrow> Inl (err ''Invalid database, hierarchical namespaces are not supported''))"

text \<open>
  Modelled from the spec: \<^verbatim>\<open>identifier_to_database_and_table\<close> is a method of the
  base class. The spec: a table reference fails if fewer than two non-empty segments
  remain, and an identifier with more than one namespace segment is rejected.
\<close>

definition identifier_to_database_and_table ::
  "ident \<Rightarrow> (string \<Rightarrow> error) \<Rightarrow> error + string \<times> string" where
  "identifier_to_database_and_table identifier err =
     (case identifier_to_tuple identifier of
        [database_name, table_name] \<Rightarrow>
          if database_name = [] \<or> table_name = []
          then Inl (err ''Invalid path, hierarchical namespaces are not supported'')
          else Inr (database_name, table_name)
      | _ \<Rightarrow> Inl (err ''Invalid path, hierarchical namespaces are not supported''))"

section \<open>The catalog and its collaborators\<close>

text \<open>
  Modelled from the spec: \<^verbatim>\<open>new_table_metadata\<close> is not among the sources. The
  spec: an initial metadata object is built from the supplied location, schema,
  partition spec, sort order and properties.
\<close>

record table_metadata =
  md_location :: string
  md_schema :: schema
  md_partition_spec :: partition_spec
  md_sort_order :: sort_order
  md_properties :: properties

definition new_table_metadata ::
  "string \<Rightarrow> schema \<Rightarrow> partition_spec \<Rightarrow> sort_order \<Rightarrow> properties \<Rightarrow> table_metadata" where
  "new_table_metadata location schema partition_spec sort_order properties =
     \<lparr>md_location = location, md_schema = schema, md_partition_spec = partition_spec,
      md_sort_order = sort_order, md_properties = properties\<rparr>"

text \<open>
  The \<^verbatim>\<open>Table\<close> returned to callers (lines 164-170); the file access handle and
  the reference back to the catalog are left out.
\<close>

record table =
  table_identifier :: "string list"
  table_metadata :: table_metadata
  table_metadata_location :: string

text \<open>The responses of the two paginated calls.\<close>

record get_tables_response =
  TableList :: "glue_table list"
  tables_NextToken :: "string option"

record get_databases_response =
  DatabaseList :: "database list"
  databases_NextToken :: "string option"

text \<open>
  Every call that leaves the catalog, on the backend client \<^verbatim>\<open>self.glue\<close> or on
  the file access layer, with its arguments.
\<close>

datatype call =
    GetTable string string
  | CreateTable string table_input
  | DeleteTable string string
  | GetTables string "string option"
  | CreateDatabase database
  | GetDatabase string
  | UpdateDatabase string database
  | DeleteDatabase string
  | GetDatabases "string option"
  | ReadMetadata string
  | WriteMetadata table_metadata string

text \<open>
  The world a catalog method runs in: the state of the metastore, the state of the
  content store, and the calls issued so far, oldest first. Both states are
  arbitrary: nothing is assumed about how the backend answers.
\<close>

record ('s, 'f) world =
  backend :: 's
  store :: 'f
  calls :: "call list"

text \<open>
  \<^verbatim>\<open>self\<close>: the catalog's name, the operations of its backend client (each
  answers with a result or raises a backend exception, and may change the
  metastore), and the collaborators that are not among the sources.
  \<^verbatim>\<open>read_table_metadata\<close> stands for lines 161-163 and 168 (\<^verbatim>\<open>load_file_io\<close>,
  \<^verbatim>\<open>new_input\<close>, \<^verbatim>\<open>FromInputFile.table_metadata\<close>), \<^verbatim>\<open>write_table_metadata\<close> for
  lines 215-216 (\<^verbatim>\<open>load_file_io\<close>, \<^verbatim>\<open>_write_metadata\<close>); \<^verbatim>\<open>default_location\<close> is
  the default location policy of \<^verbatim>\<open>_resolve_table_location\<close>, given the
  properties of the namespace, and
  \<^verbatim>\<open>metadata_file_name\<close> the fresh file name \<^verbatim>\<open>_get_metadata_location\<close> picks.
\<close>

record ('s, 'f) catalog =
  catalog_name :: string
  glue_get_table :: "string \<Rightarrow> string \<Rightarrow> 's \<Rightarrow> (glue_exception + glue_table) \<times> 's"
  glue_create_table :: "string \<Rightarrow> table_input \<Rightarrow> 's \<Rightarrow> (glue_exception + unit) \<times> 's"
  glue_delete_table :: "string \<Rightarrow> string \<Rightarrow> 's \<Rightarrow> (glue_exception + unit) \<times> 's"
  glue_get_tables ::
    "string \<Rightarrow> string option \<Rightarrow> 's \<Rightarrow> (glue_exception + get_tables_response) \<times> 's"
  glue_create_database :: "database \<Rightarrow> 's \<Rightarrow> (glue_exception + unit) \<times> 's"
  glue_get_database :: "string \<Rightarrow> 's \<Rightarrow> (glue_exception + database) \<times> 's"
  glue_update_database :: "string \<Rightarrow> database \<Rightarrow> 's \<Rightarrow> (glue_exception + unit) \<times> 's"
  glue_delete_database :: "string \<Rightarrow> 's \<Rightarrow> (glue_exception + unit) \<times> 's"
  glue_get_databases ::
    "string option \<Rightarrow> 's \<Rightarrow> (glue_exception + get_databases_response) \<times> 's"
  read_table_metadata :: "string \<Rightarrow> 'f \<Rightarrow> (error + table_metadata) \<times> 'f"
  write_table_metadata :: "table_metadata \<Rightarrow> string \<Rightarrow> 'f \<Rightarrow> (error + unit) \<times> 'f"
  default_location :: "properties \<Rightarrow> string \<Rightarrow> string \<Rightarrow> error + string"
  metadata_file_name :: string

text \<open>A call on the backend client: it acts on the metastore and is recorded.\<close>

definition glue_invoke :: "call \<Rightarrow> ('s \<Rightarrow> 'r \<times> 's) \<Rightarrow> ('s, 'f) world \<Rightarrow> 'r \<times> ('s, 'f) world" where
  "glue_invoke cl f w =
     (case f (backend w) of (r, s') \<Rightarrow> (r, w\<lparr>backend := s', calls := calls w @ [cl]\<rparr>))"

text \<open>A call on the file access layer: it acts on the content store and is recorded.\<close>

definition io_invoke :: "call \<Rightarrow> ('f \<Rightarrow> 'r \<times> 'f) \<Rightarrow> ('s, 'f) world \<Rightarrow> 'r \<times> ('s, 'f) world" where
  "io_invoke cl f w =
     (case f (store w) of (r, f') \<Rightarrow> (r, w\<lparr>store := f', calls := calls w @ [cl]\<rparr>))"

section \<open>Table lifecycle\<close>

text \<open>
  Lines 136-170. Line 137 raises \<^verbatim>\<open>KeyError\<close> when the entity has no
  \<^verbatim>\<open>Parameters\<close>, line 139 when it has no \<^verbatim>\<open>DatabaseName\<close>; the two assertions
  fail on an empty database name and on an empty properties bag.
\<close>

definition convert_glue_to_iceberg ::
  "('s, 'f) catalog \<Rightarrow> glue_table \<Rightarrow> ('s, 'f) world \<Rightarrow> (error + table) \<times> ('s, 'f) world" where
  "convert_glue_to_iceberg self glue_table w =
     (case tbl_Parameters glue_table of
        None \<Rightarrow> (Inl (KeyError ''Parameters''), w)
      | Some properties \<Rightarrow>
     (case tbl_DatabaseName glue_table of
        None \<Rightarrow> (Inl (KeyError ''DatabaseName''), w)
      | Some database_name \<Rightarrow>
          if database_name = [] then (Inl AssertionError, w)
          else if properties = [] then (Inl AssertionError, w)
          else
            let table_name = tbl_Name glue_table in
            (case map_of properties TABLE_TYPE of
               None \<Rightarrow>
                 (Inl (NoSuchPropertyException
                    (''Property '' @ TABLE_TYPE @ '' missing, could not determine type: ''
                       @ database_name @ ''.'' @ table_name)), w)
             | Some glue_table_type \<Rightarrow>
                 if lower glue_table_type \<noteq> ICEBERG
                 then (Inl (NoSuchIcebergTableError
                    (''Property table_type is '' @ glue_table_type @ '', expected '' @ ICEBERG
                       @ '': '' @ database_name @ ''.'' @ table_name)), w)
                 else
                   (case map_of properties METADATA_LOCATION of
                      None \<Rightarrow>
                        (Inl (NoSuchPropertyException
                           (''Table property '' @ METADATA_LOCATION
                              @ '' is missing, cannot find metadata for: ''
                              @ database_name @ ''.'' @ table_name)), w)
                    | Some metadata_location \<Rightarrow>
                        (case io_invoke (ReadMetadata metadata_location)
                                (read_table_metadata self metadata_location) w of
                           (Inl e, w') \<Rightarrow> (Inl e, w')
                         | (Inr metadata, w') \<Rightarrow>
                             (Inr \<lparr>table_identifier =
                                     [catalog_name self, database_name, table_name],
                                   table_metadata = metadata,
                                   table_metadata_location = metadata_location\<rparr>, w'))))))"

text \<open>Lines 172-178.\<close>

definition create_glue_table ::
  "('s, 'f) catalog \<Rightarrow> string \<Rightarrow> string \<Rightarrow> table_input \<Rightarrow> ('s, 'f) world
     \<Rightarrow> (error + unit) \<times> ('s, 'f) world" where
  "create_glue_table self database_name table_name table_input w =
     (case glue_invoke (CreateTable database_name table_input)
             (glue_create_table self database_name table_input) w of
        (Inr u, w') \<Rightarrow> (Inr (), w')
      | (Inl AlreadyExistsException, w') \<Rightarrow>
          (Inl (TableAlreadyExistsError
             (''Table '' @ database_name @ ''.'' @ table_name @ '' already exists'')), w')
      | (Inl EntityNotFoundException, w') \<Rightarrow>
          (Inl (NoSuchNamespaceError (''Database '' @ database_name @ '' does not exist'')), w')
      | (Inl x, w') \<Rightarrow> (Inl (GlueError x), w'))"

text \<open>Lines 253-275.\<close>

definition load_table ::
  "('s, 'f) catalog \<Rightarrow> ident \<Rightarrow> ('s, 'f) world \<Rightarrow> (error + table) \<times> ('s, 'f) world" where
  "load_table self identifier w =
     (let identifier_tuple = identifier_to_tuple_without_catalog (catalog_name self) identifier in
      case identifier_to_database_and_table identifier_tuple NoSuchTableError of
        Inl e \<Rightarrow> (Inl e, w)
      | Inr (database_name, table_name) \<Rightarrow>
          (case glue_invoke (GetTable database_name table_name)
                  (glue_get_table self database_name table_name) w of
             (Inr glue_table, w') \<Rightarrow> convert_glue_to_iceberg self glue_table w'
           | (Inl EntityNotFoundException, w') \<Rightarrow>
               (Inl (NoSuchTableError
                  (''Table does not exist: '' @ database_name @ ''.'' @ table_name)), w')
           | (Inl x, w') \<Rightarrow> (Inl (GlueError x), w')))"

text \<open>Lines 277-291.\<close>

definition drop_table ::
  "('s, 'f) catalog \<Rightarrow> ident \<Rightarrow> ('s, 'f) world \<Rightarrow> (error + unit) \<times> ('s, 'f) world" where
  "drop_table self identifier w =
     (let identifier_tuple = identifier_to_tuple_without_catalog (catalog_name self) identifier in
      case identifier_to_database_and_table identifier_tuple NoSuchTableError of
        Inl e \<Rightarrow> (Inl e, w)
      | Inr (database_name, table_name) \<Rightarrow>
          (case glue_invoke (DeleteTable database_name table_name)
                  (glue_delete_table self database_name table_name) w of
             (Inr u, w') \<Rightarrow> (Inr (), w')
           | (Inl EntityNotFoundException, w') \<Rightarrow>
               (Inl (NoSuchTableError
                  (''Table does not exist: '' @ database_name @ ''.'' @ table_name)), w')
           | (Inl x, w') \<Rightarrow> (Inl (GlueError x), w')))"

text \<open>
  Lines 312-335 of \<^verbatim>\<open>rename_table\<close>: everything before the source is dropped. The
  source entity is fetched and validated, the destination entity is built and
  registered. The result is the four resolved names.
\<close>

definition rename_table_register ::
  "('s, 'f) catalog \<Rightarrow> ident \<Rightarrow> ident \<Rightarrow> ('s, 'f) world
     \<Rightarrow> (error + (string \<times> string) \<times> (string \<times> string)) \<times> ('s, 'f) world" where
  "rename_table_register self from_identifier to_identifier w =
     (let from_identifier_tuple =
            identifier_to_tuple_without_catalog (catalog_name self) from_identifier in
      case identifier_to_database_and_table from_identifier_tuple NoSuchTableError of
        Inl e \<Rightarrow> (Inl e, w)
      | Inr (from_database_name, from_table_name) \<Rightarrow>
     (case identifier_to_database_and_table to_identifier ValueError of
        Inl e \<Rightarrow> (Inl e, w)
      | Inr (to_database_name, to_table_name) \<Rightarrow>
     (case glue_invoke (GetTable from_database_name from_table_name)
             (glue_get_table self from_database_name from_table_name) w of
        (Inl EntityNotFoundException, w1) \<Rightarrow>
          (Inl (NoSuchTableError
             (''Table does not exist: '' @ from_database_name @ ''.'' @ from_table_name)), w1)
      | (Inl x, w1) \<Rightarrow> (Inl (GlueError x), w1)
      | (Inr glue_table, w1) \<Rightarrow>
     (case convert_glue_to_iceberg self glue_table w1 of
        (Inl (NoSuchPropertyException m), w2) \<Rightarrow>
          (Inl (NoSuchPropertyException
             (''Failed to rename table '' @ from_database_name @ ''.'' @ from_table_name
                @ '' since it is missing required properties'')), w2)
      | (Inl (NoSuchIcebergTableError m), w2) \<Rightarrow>
          (Inl (NoSuchIcebergTableError
             (''Failed to rename table '' @ from_database_name @ ''.'' @ from_table_name
                @ '' since it is not a valid iceberg table'')), w2)
      | (Inl e, w2) \<Rightarrow> (Inl e, w2)
      | (Inr t, w2) \<Rightarrow>
     (case construct_rename_table_input to_table_name glue_table of
        Inl e \<Rightarrow> (Inl e, w2)
      | Inr rename_table_input \<Rightarrow>
     (case create_glue_table self to_database_name to_table_name rename_table_input w2 of
        (Inl e, w3) \<Rightarrow> (Inl e, w3)
      | (Inr u, w3) \<Rightarrow>
          (Inr ((from_database_name, from_table_name), (to_database_name, to_table_name)),
           w3)))))))"

text \<open>
  Lines 312-352. After the registration, lines 337-350: the source is dropped; if
  that raises any exception, the destination is dropped again, and a
  \<^verbatim>\<open>ValueError\<close> with the log message is raised, unless the second drop raised
  something other than \<^verbatim>\<open>NoSuchTableError\<close>, which no handler catches.
\<close>

definition rename_table ::
  "('s, 'f) catalog \<Rightarrow> ident \<Rightarrow> ident \<Rightarrow> ('s, 'f) world
     \<Rightarrow> (error + table) \<times> ('s, 'f) world" where
  "rename_table self from_identifier to_identifier w =
     (case rename_table_register self from_identifier to_identifier w of
        (Inl e, w3) \<Rightarrow> (Inl e, w3)
      | (Inr ((from_database_name, from_table_name), (to_database_name, to_table_name)), w3) \<Rightarrow>
          (case drop_table self from_identifier w3 of
             (Inr u, w4) \<Rightarrow> load_table self to_identifier w4
           | (Inl e, w4) \<Rightarrow>
               let log_message =
                     ''Failed to drop old table '' @ from_database_name @ ''.''
                       @ from_table_name @ ''. ''
               in
               (case drop_table self to_identifier w4 of
                  (Inr u, w5) \<Rightarrow>
                    (Inl (ValueError
                       (log_message @ ''Rolled back table creation for '' @ to_database_name
                          @ ''.'' @ to_table_name @ ''.'')), w5)
                | (Inl (NoSuchTableError m), w5) \<Rightarrow>
                    (Inl (ValueError
                       (log_message @ ''Failed to roll back table creation for ''
                          @ to_database_name @ ''.'' @ to_table_name @ ''. ''
                          @ ''Please clean up manually'')), w5)
                | (Inl e2, w5) \<Rightarrow> (Inl e2, w5))))"

section \<open>Namespaces and listings\<close>

text \<open>
  Python's truth value of a continuation token: \<^verbatim>\<open>not next_token\<close> holds for
  \<^verbatim>\<open>None\<close> and for the empty string.
\<close>

definition no_token :: "string option \<Rightarrow> bool" where
  "no_token next_token = (case next_token of None \<Rightarrow> True | Some t \<Rightarrow> t = [])"

text \<open>
  The token a page request carries (lines 412-416 and 441): none when
  \<^verbatim>\<open>not next_token\<close>, the token otherwise.
\<close>

definition request_token :: "string option \<Rightarrow> string option" where
  "request_token next_token = (if no_token next_token then None else next_token)"

text \<open>
  Lines 411-420, the loop \<^verbatim>\<open>while True\<close> of \<^verbatim>\<open>list_tables\<close>. A backend that
  never stops handing out tokens keeps it running: the result is then \<open>None\<close>.
\<close>

partial_function (option) list_tables_loop ::
  "('s, 'f) catalog \<Rightarrow> string \<Rightarrow> string option \<Rightarrow> glue_table list \<Rightarrow> ('s, 'f) world
     \<Rightarrow> ((glue_exception + glue_table list) \<times> ('s, 'f) world) option" where
  "list_tables_loop self database_name next_token table_list w =
     (case glue_invoke (GetTables database_name (request_token next_token))
             (glue_get_tables self database_name (request_token next_token)) w of
        (Inl x, w') \<Rightarrow> Some (Inl x, w')
      | (Inr table_list_response, w') \<Rightarrow>
          if no_token (tables_NextToken table_list_response)
          then Some (Inr (table_list @ TableList table_list_response), w')
          else list_tables_loop self database_name (tables_NextToken table_list_response)
                 (table_list @ TableList table_list_response) w')"

text \<open>
  Lines 406-424. Line 410 fetches the first page once before the loop and drops
  the response; the handler of line 422 covers that call and the loop.
\<close>

definition list_tables ::
  "('s, 'f) catalog \<Rightarrow> ident \<Rightarrow> ('s, 'f) world
     \<Rightarrow> ((error + string list list) \<times> ('s, 'f) world) option" where
  "list_tables self namespace w =
     (case identifier_to_database namespace NoSuchNamespaceError of
        Inl e \<Rightarrow> Some (Inl e, w)
      | Inr database_name \<Rightarrow>
          (case glue_invoke (GetTables database_name None)
                  (glue_get_tables self database_name None) w of
             (Inl EntityNotFoundException, w0) \<Rightarrow>
               Some (Inl (NoSuchNamespaceError
                  (''Database does not exist: '' @ database_name)), w0)
           | (Inl x, w0) \<Rightarrow> Some (Inl (GlueError x), w0)
           | (Inr table_list_response, w0) \<Rightarrow>
               (case list_tables_loop self database_name None [] w0 of
                  None \<Rightarrow> None
                | Some (Inl EntityNotFoundException, w') \<Rightarrow>
                    Some (Inl (NoSuchNamespaceError
                       (''Database does not exist: '' @ database_name)), w')
                | Some (Inl x, w') \<Rightarrow> Some (Inl (GlueError x), w')
                | Some (Inr table_list, w') \<Rightarrow>
                    Some (Inr (map (\<lambda>table. [database_name, tbl_Name table]) table_list),
                          w'))))"

text \<open>Lines 440-445, the loop \<^verbatim>\<open>while True\<close> of \<^verbatim>\<open>list_namespaces\<close>.\<close>

partial_function (option) list_namespaces_loop ::
  "('s, 'f) catalog \<Rightarrow> string option \<Rightarrow> database list \<Rightarrow> ('s, 'f) world
     \<Rightarrow> ((glue_exception + database list) \<times> ('s, 'f) world) option" where
  "list_namespaces_loop self next_token database_list w =
     (case glue_invoke (GetDatabases (request_token next_token))
             (glue_get_databases self (request_token next_token)) w of
        (Inl x, w') \<Rightarrow> Some (Inl x, w')
      | (Inr databases_response, w') \<Rightarrow>
          if no_token (databases_NextToken databases_response)
          then Some (Inr (database_list @ DatabaseList databases_response), w')
          else list_namespaces_loop self (databases_NextToken databases_response)
                 (database_list @ DatabaseList databases_response) w')"

text \<open>The two loops are run by their unfolding equations.\<close>

declare list_tables_loop.simps [code]

declare list_namespaces_loop.simps [code]

text \<open>
  The truth value of the \<^verbatim>\<open>namespace\<close> argument at line 433: a string or a tuple
  is true when it is not empty.
\<close>

fun truthy :: "ident \<Rightarrow> bool" where
  "truthy (IdStr s) = (s \<noteq> [])"
| "truthy (IdTuple t) = (t \<noteq> [])"

text \<open>
  Lines 432-447. Line 437 fetches the first page once before the loop and drops the
  response. No backend exception is handled here.
\<close>

definition list_namespaces ::
  "('s, 'f) catalog \<Rightarrow> ident \<Rightarrow> ('s, 'f) world
     \<Rightarrow> ((error + string list list) \<times> ('s, 'f) world) option" where
  "list_namespaces self namespace w =
     (if truthy namespace then Some (Inr [], w)
      else
        (case glue_invoke (GetDatabases None) (glue_get_databases self None) w of
           (Inl x, w0) \<Rightarrow> Some (Inl (GlueError x), w0)
         | (Inr databases_response, w0) \<Rightarrow>
             (case list_namespaces_loop self None [] w0 of
                None \<Rightarrow> None
              | Some (Inl x, w') \<Rightarrow> Some (Inl (GlueError x), w')
              | Some (Inr database_list, w') \<Rightarrow>
                  Some (Inr (map (\<lambda>database. identifier_to_tuple (IdStr (db_Name database)))
                               database_list), w'))))"

text \<open>Lines 365-369.\<close>

definition create_namespace ::
  "('s, 'f) catalog \<Rightarrow> ident \<Rightarrow> properties \<Rightarrow> ('s, 'f) world \<Rightarrow> (error + unit) \<times> ('s, 'f) world" where
  "create_namespace self namespace properties w =
     (case identifier_to_database namespace ValueError of
        Inl e \<Rightarrow> (Inl e, w)
      | Inr database_name \<Rightarrow>
          (case glue_invoke (CreateDatabase (construct_database_input database_name properties))
                  (glue_create_database self
                     (construct_database_input database_name properties)) w of
             (Inr u, w') \<Rightarrow> (Inr (), w')
           | (Inl AlreadyExistsException, w') \<Rightarrow>
               (Inl (NamespaceAlreadyExistsError
                  (''Database '' @ database_name @ '' already exists'')), w')
           | (Inl x, w') \<Rightarrow> (Inl (GlueError x), w')))"

text \<open>
  Lines 383-392. \<^verbatim>\<open>list_tables\<close> is called with the database name as a string.
  The call of line 392 has no handler.
\<close>

definition drop_namespace ::
  "('s, 'f) catalog \<Rightarrow> ident \<Rightarrow> ('s, 'f) world \<Rightarrow> ((error + unit) \<times> ('s, 'f) world) option" where
  "drop_namespace self namespace w =
     (case identifier_to_database namespace NoSuchNamespaceError of
        Inl e \<Rightarrow> Some (Inl e, w)
      | Inr database_name \<Rightarrow>
          (case list_tables self (IdStr database_name) w of
             None \<Rightarrow> None
           | Some (Inl (NoSuchNamespaceError m), w1) \<Rightarrow>
               Some (Inl (NoSuchNamespaceError
                  (''Database does not exist: '' @ database_name)), w1)
           | Some (Inl e, w1) \<Rightarrow> Some (Inl e, w1)
           | Some (Inr table_list, w1) \<Rightarrow>
               if 0 < length table_list
               then Some (Inl (NamespaceNotEmptyError
                  (''Database '' @ database_name @ '' is not empty'')), w1)
               else
                 (case glue_invoke (DeleteDatabase database_name)
                         (glue_delete_database self database_name) w1 of
                    (Inl x, w2) \<Rightarrow> Some (Inl (GlueError x), w2)
                  | (Inr u, w2) \<Rightarrow> Some (Inr (), w2))))"

text \<open>Lines 461-477.\<close>

definition load_namespace_properties ::
  "('s, 'f) catalog \<Rightarrow> ident \<Rightarrow> ('s, 'f) world \<Rightarrow> (error + properties) \<times> ('s, 'f) world" where
  "load_namespace_properties self namespace w =
     (case identifier_to_database namespace NoSuchNamespaceError of
        Inl e \<Rightarrow> (Inl e, w)
      | Inr database_name \<Rightarrow>
          (case glue_invoke (GetDatabase database_name)
                  (glue_get_database self database_name) w of
             (Inr database, w') \<Rightarrow> (Inr (properties_of_database database), w')
           | (Inl EntityNotFoundException, w') \<Rightarrow>
               (Inl (NoSuchNamespaceError
                  (''Database does not exist: '' @ database_name)), w')
           | (Inl InvalidInputException, w') \<Rightarrow>
               (Inl (NoSuchNamespaceError
                  (''Invalid input for namespace '' @ database_name)), w')
           | (Inl x, w') \<Rightarrow> (Inl (GlueError x), w')))"

text \<open>\<^verbatim>\<open>PropertiesUpdateSummary\<close>. A Python set of keys is listed without repeats.\<close>

record properties_update_summary =
  removed :: "string list"
  updated :: "string list"
  missing :: "string list"

text \<open>
  Modelled from the spec: \<^verbatim>\<open>_get_updated_props_and_update_summary\<close> is a method of
  the base class \<^verbatim>\<open>Catalog\<close>, which is not among the sources. The spec: the
  reconciliation fails \<^verbatim>\<open>AmbiguousUpdate\<close> if a key appears in both removals and
  updates; otherwise it removes the keys in removals, overlays the keys in updates,
  and returns a summary of the keys updated, removed, and requested for removal but
  missing. The docstring of line 491 names the failure \<^verbatim>\<open>ValueError\<close>.
\<close>

definition get_updated_props_and_update_summary ::
  "properties \<Rightarrow> string list option \<Rightarrow> properties
     \<Rightarrow> error + properties_update_summary \<times> properties" where
  "get_updated_props_and_update_summary current_properties removals updates =
     (let removal_keys = (case removals of None \<Rightarrow> [] | Some r \<Rightarrow> r) in
      if list_ex (\<lambda>k. map_of updates k \<noteq> None) removal_keys
      then Inl (ValueError ''Updates and deletes have an overlap'')
      else
        Inr (\<lparr>removed = filter (\<lambda>k. map_of current_properties k \<noteq> None) removal_keys,
              updated = map fst updates,
              missing = filter (\<lambda>k. map_of current_properties k = None) removal_keys\<rparr>,
             fold (\<lambda>kv ps. AList.update (fst kv) (snd kv) ps) updates
               (filter (\<lambda>kv. fst kv \<notin> set removal_keys) current_properties)))"

text \<open>Lines 493-501.\<close>

definition update_namespace_properties ::
  "('s, 'f) catalog \<Rightarrow> ident \<Rightarrow> string list option \<Rightarrow> properties \<Rightarrow> ('s, 'f) world
     \<Rightarrow> (error + properties_update_summary) \<times> ('s, 'f) world" where
  "update_namespace_properties self namespace removals updates w =
     (case load_namespace_properties self namespace w of
        (Inl e, w1) \<Rightarrow> (Inl e, w1)
      | (Inr current_properties, w1) \<Rightarrow>
     (case get_updated_props_and_update_summary current_properties removals updates of
        Inl e \<Rightarrow> (Inl e, w1)
      | Inr (properties_update_summary, updated_properties) \<Rightarrow>
     (case identifier_to_database namespace NoSuchNamespaceError of
        Inl e \<Rightarrow> (Inl e, w1)
      | Inr database_name \<Rightarrow>
          (case glue_invoke
                  (UpdateDatabase database_name
                     (construct_database_input database_name updated_properties))
                  (glue_update_database self database_name
                     (construct_database_input database_name updated_properties)) w1 of
             (Inl x, w2) \<Rightarrow> (Inl (GlueError x), w2)
           | (Inr u, w2) \<Rightarrow> (Inr properties_update_summary, w2)))))"

section \<open>Table creation\<close>

text \<open>
  Modelled from the spec: \<^verbatim>\<open>_resolve_table_location\<close> is a method of the base
  class \<^verbatim>\<open>Catalog\<close>, which is not among the sources. The spec: if the location is
  empty, one is derived from the namespace/table default location policy. The
  namespace's part of the policy is read from its properties, loaded as
  \<^verbatim>\<open>load_namespace_properties\<close> loads them; the policy itself is a parameter of the
  catalog.
\<close>

definition default_table_location ::
  "('s, 'f) catalog \<Rightarrow> string \<Rightarrow> string \<Rightarrow> ('s, 'f) world
     \<Rightarrow> (error + string) \<times> ('s, 'f) world" where
  "default_table_location self database_name table_name w =
     (case load_namespace_properties self (IdStr database_name) w of
        (Inl e, w0) \<Rightarrow> (Inl e, w0)
      | (Inr database_properties, w0) \<Rightarrow>
          (default_location self database_properties database_name table_name, w0))"

definition resolve_table_location ::
  "('s, 'f) catalog \<Rightarrow> string option \<Rightarrow> string \<Rightarrow> string \<Rightarrow> ('s, 'f) world
     \<Rightarrow> (error + string) \<times> ('s, 'f) world" where
  "resolve_table_location self location database_name table_name w =
     (case location of
        None \<Rightarrow> default_table_location self database_name table_name w
      | Some l \<Rightarrow>
          if l = [] then default_table_location self database_name table_name w
          else (Inr l, w))"

text \<open>
  Modelled from the spec: \<^verbatim>\<open>_get_metadata_location\<close> is a method of the base
  class. The spec: a metadata file path under the table's location.
\<close>

definition get_metadata_location :: "('s, 'f) catalog \<Rightarrow> string \<Rightarrow> string" where
  "get_metadata_location self location = location @ ''/metadata/'' @ metadata_file_name self"

text \<open>
  Lines 208-222. The metadata file is written (line 216) and then the entity is
  registered (line 220); the table is returned by loading it again. Line 219
  resolves the identifier a second time, to the same two names.
\<close>

definition create_table ::
  "('s, 'f) catalog \<Rightarrow> ident \<Rightarrow> schema \<Rightarrow> string option \<Rightarrow> partition_spec \<Rightarrow> sort_order
     \<Rightarrow> properties \<Rightarrow> ('s, 'f) world \<Rightarrow> (error + table) \<times> ('s, 'f) world" where
  "create_table self identifier schema location partition_spec sort_order properties w =
     (case identifier_to_database_and_table identifier ValueError of
        Inl e \<Rightarrow> (Inl e, w)
      | Inr (database_name, table_name) \<Rightarrow>
     (case resolve_table_location self location database_name table_name w of
        (Inl e, w0) \<Rightarrow> (Inl e, w0)
      | (Inr location, w0) \<Rightarrow>
          let metadata_location = get_metadata_location self location;
              metadata = new_table_metadata location schema partition_spec sort_order properties
          in
          (case io_invoke (WriteMetadata metadata metadata_location)
                  (write_table_metadata self metadata metadata_location) w0 of
             (Inl e, w1) \<Rightarrow> (Inl e, w1)
           | (Inr u, w1) \<Rightarrow>
               let table_input =
                     construct_create_table_input table_name metadata_location properties
               in
               (case create_glue_table self database_name table_name table_input w1 of
                  (Inl e, w2) \<Rightarrow> (Inl e, w2)
                | (Inr u, w2) \<Rightarrow> load_table self identifier w2))))"

section \<open>An in-memory metastore\<close>

text \<open>
  A small metastore and content store to run the catalog on concrete inputs: tables
  and databases are kept in association lists, a missing entity is answered with
  \<^verbatim>\<open>EntityNotFoundException\<close>, an existing one with \<^verbatim>\<open>AlreadyExistsException\<close>,
  and listings are served one entry per page, the continuation token being the name
  of the next entry.
\<close>

record memory_backend =
  mem_tables :: "((string \<times> string) \<times> glue_table) list"
  mem_databases :: "(string \<times> database) list"

definition page_of :: "('a \<Rightarrow> string) \<Rightarrow> 'a list \<Rightarrow> string option \<Rightarrow> 'a list \<times> string option" where
  "page_of name_of entries token =
     (let rest = (case token of None \<Rightarrow> entries
                  | Some t \<Rightarrow> dropWhile (\<lambda>x. name_of x \<noteq> t) entries)
      in (take 1 rest, case drop 1 rest of [] \<Rightarrow> None | y # ys \<Rightarrow> Some (name_of y)))"

definition entity_of_input :: "string \<Rightarrow> table_input \<Rightarrow> glue_table" where
  "entity_of_input database_name table_input =
     \<lparr>tbl_Name = ti_Name table_input, tbl_DatabaseName = Some database_name,
      tbl_TableType = ti_TableType table_input, tbl_Owner = ti_Owner table_input,
      tbl_Parameters = ti_Parameters table_input,
      tbl_StorageDescriptor = ti_StorageDescriptor table_input,
      tbl_Description = ti_Description table_input\<rparr>"

definition memory_catalog :: "(memory_backend, (string \<times> table_metadata) list) catalog" where
  "memory_catalog =
     \<lparr>catalog_name = ''glue'',
      glue_get_table = (\<lambda>db t s.
         case map_of (mem_tables s) (db, t) of
           None \<Rightarrow> (Inl EntityNotFoundException, s)
         | Some g \<Rightarrow> (Inr g, s)),
      glue_create_table = (\<lambda>db inp s.
         if map_of (mem_databases s) db = None then (Inl EntityNotFoundException, s)
         else if map_of (mem_tables s) (db, ti_Name inp) \<noteq> None
         then (Inl AlreadyExistsException, s)
         else (Inr (), s\<lparr>mem_tables :=
                 mem_tables s @ [((db, ti_Name inp), entity_of_input db inp)]\<rparr>)),
      glue_delete_table = (\<lambda>db t s.
         if map_of (mem_tables s) (db, t) = None then (Inl EntityNotFoundException, s)
         else (Inr (), s\<lparr>mem_tables := filter (\<lambda>e. fst e \<noteq> (db, t)) (mem_tables s)\<rparr>)),
      glue_get_tables = (\<lambda>db token s.
         if map_of (mem_databases s) db = None then (Inl EntityNotFoundException, s)
         else
           (case page_of tbl_Name
                   (map snd (filter (\<lambda>e. fst (fst e) = db) (mem_tables s))) token of
              (page, next) \<Rightarrow> (Inr \<lparr>TableList = page, tables_NextToken = next\<rparr>, s))),
      glue_create_database = (\<lambda>d s.
         if map_of (mem_databases s) (db_Name d) \<noteq> None then (Inl AlreadyExistsException, s)
         else (Inr (), s\<lparr>mem_databases := mem_databases s @ [(db_Name d, d)]\<rparr>)),
      glue_get_database = (\<lambda>n s.
         case map_of (mem_databases s) n of
           None \<Rightarrow> (Inl EntityNotFoundException, s)
         | Some d \<Rightarrow> (Inr d, s)),
      glue_update_database = (\<lambda>n d s.
         if map_of (mem_databases s) n = None then (Inl EntityNotFoundException, s)
         else (Inr (), s\<lparr>mem_databases := AList.update n d (mem_databases s)\<rparr>)),
      glue_delete_database = (\<lambda>n s.
         if map_of (mem_databases s) n = None then (Inl EntityNotFoundException, s)
         else (Inr (), s\<lparr>mem_databases := filter (\<lambda>e. fst e \<noteq> n) (mem_databases s)\<rparr>)),
      glue_get_databases = (\<lambda>token s.
         case page_of db_Name (map snd (mem_databases s)) token of
           (page, next) \<Rightarrow> (Inr \<lparr>DatabaseList = page, databases_NextToken = next\<rparr>, s)),
      read_table_metadata = (\<lambda>location f.
         case map_of f location of
           None \<Rightarrow> (Inl (IOError (''No such file: '' @ location)), f)
         | Some m \<Rightarrow> (Inr m, f)),
      write_table_metadata = (\<lambda>m location f. (Inr (), AList.update location m f)),
      default_location = (\<lambda>database_properties db t.
         case map_of database_properties LOCATION of
           None \<Rightarrow> Inr (''s3://warehouse/'' @ db @ ''.db/'' @ t)
         | Some l \<Rightarrow> Inr (l @ ''/'' @ t)),
      metadata_file_name = ''00000-a.metadata.json''\<rparr>"

text \<open>
  The same metastore for a caller who may read and create but not delete tables:
  every \<^verbatim>\<open>delete_table\<close> is refused with the backend's access-denied error.
\<close>

definition no_delete_catalog :: "(memory_backend, (string \<times> table_metadata) list) catalog" where
  "no_delete_catalog =
     memory_catalog\<lparr>glue_delete_table :=
       (\<lambda>db t s. (Inl (ClientError ''AccessDeniedException''), s))\<rparr>"

text \<open>
  The same metastore under load: the first page of tables is served, every
  request that carries a continuation token is refused with a throttling error.
\<close>

definition throttled_catalog :: "(memory_backend, (string \<times> table_metadata) list) catalog" where
  "throttled_catalog =
     memory_catalog\<lparr>glue_get_tables :=
       (\<lambda>db token s.
          case token of
            None \<Rightarrow> glue_get_tables memory_catalog db None s
          | Some t \<Rightarrow> (Inl (ClientError ''ThrottlingException''), s))\<rparr>"

text \<open>A table entity of this format, and one that lacks the table-type property.\<close>

definition iceberg_entity :: "string \<Rightarrow> string \<Rightarrow> string \<Rightarrow> glue_table" where
  "iceberg_entity database_name table_name metadata_location =
     \<lparr>tbl_Name = table_name, tbl_DatabaseName = Some database_name,
      tbl_TableType = Some ''EXTERNAL_TABLE'', tbl_Owner = Some ''alice'',
      tbl_Parameters =
        Some [(''table_type'', ''ICEBERG''), (''metadata_location'', metadata_location)],
      tbl_StorageDescriptor = Some ''columns'', tbl_Description = None\<rparr>"

definition untyped_entity :: glue_table where
  "untyped_entity =
     \<lparr>tbl_Name = ''t1'', tbl_DatabaseName = Some ''db'',
      tbl_TableType = Some ''EXTERNAL_TABLE'', tbl_Owner = None,
      tbl_Parameters = Some [(''metadata_location'', ''s3://b/t1/metadata/v1.json'')],
      tbl_StorageDescriptor = None, tbl_Description = None\<rparr>"

definition example_metadata :: table_metadata where
  "example_metadata =
     \<lparr>md_location = ''s3://b/t1'', md_schema = ''schema'', md_partition_spec = ''spec'',
      md_sort_order = ''order'', md_properties = []\<rparr>"

text \<open>
  A world with one database \<^verbatim>\<open>db\<close> holding the table \<^verbatim>\<open>t1\<close>, whose metadata file
  is in the content store.
\<close>

definition example_world :: "(memory_backend, (string \<times> table_metadata) list) world" where
  "example_world =
     \<lparr>backend =
        \<lparr>mem_tables = [((''db'', ''t1''),
                          iceberg_entity ''db'' ''t1'' ''s3://b/t1/metadata/v1.json'')],
         mem_databases =
           [(''db'', \<lparr>db_Name = ''db'', db_Description = None, db_LocationUri = None,
                      db_Parameters = None\<rparr>)]\<rparr>,
      store = [(''s3://b/t1/metadata/v1.json'', example_metadata)],
      calls = []\<rparr>"

text \<open>
  A world with three databases; \<^verbatim>\<open>db\<close> holds three tables, the other two none.
\<close>

definition plain_database :: "string \<Rightarrow> database" where
  "plain_database database_name =
     \<lparr>db_Name = database_name, db_Description = None, db_LocationUri = None,
      db_Parameters = Some [(''owner'', ''bob'')]\<rparr>"

definition listing_world :: "(memory_backend, (string \<times> table_metadata) list) world" where
  "listing_world =
     \<lparr>backend =
        \<lparr>mem_tables =
           [((''db'', ''t1''), iceberg_entity ''db'' ''t1'' ''s3://b/t1/metadata/v1.json''),
            ((''db'', ''t2''), iceberg_entity ''db'' ''t2'' ''s3://b/t2/metadata/v1.json''),
            ((''db'', ''t3''), iceberg_entity ''db'' ''t3'' ''s3://b/t3/metadata/v1.json'')],
         mem_databases =
           [(''db'', plain_database ''db''), (''empty'', plain_database ''empty''),
            (''sales'', plain_database ''sales'')]\<rparr>,
      store = [],
      calls = []\<rparr>"

section \<open>Vocabulary of the properties\<close>

text \<open>The calls that delete a table, and the page requests of the two listings.\<close>

fun is_delete_table :: "call \<Rightarrow> bool" where
  "is_delete_table (DeleteTable database_name table_name) = True"
| "is_delete_table other = False"

fun is_get_tables :: "call \<Rightarrow> bool" where
  "is_get_tables (GetTables database_name token) = True"
| "is_get_tables other = False"

fun is_get_databases :: "call \<Rightarrow> bool" where
  "is_get_databases (GetDatabases token) = True"
| "is_get_databases other = False"

text \<open>The calls that write a namespace entity back.\<close>

fun is_update_database :: "call \<Rightarrow> bool" where
  "is_update_database (UpdateDatabase database_name database_input) = True"
| "is_update_database other = False"

text \<open>
  A result set served in pages: from the metastore state \<open>s\<close>, the request that
  follows \<open>next_token\<close> is answered with the first page, and every page but the last
  comes with a continuation token (one that Python takes for true) under which the
  rest is served in the state the request left.
\<close>

fun tables_paged ::
  "('s, 'f) catalog \<Rightarrow> string \<Rightarrow> string option \<Rightarrow> glue_table list list \<Rightarrow> 's \<Rightarrow> bool" where
  "tables_paged self database_name next_token [] s = False"
| "tables_paged self database_name next_token (page # pages) s =
     (case glue_get_tables self database_name (request_token next_token) s of
        (Inl x, s') \<Rightarrow> False
      | (Inr response, s') \<Rightarrow>
          TableList response = page \<and>
          (if pages = [] then no_token (tables_NextToken response)
           else \<not> no_token (tables_NextToken response) \<and>
                tables_paged self database_name (tables_NextToken response) pages s'))"

fun databases_paged ::
  "('s, 'f) catalog \<Rightarrow> string option \<Rightarrow> database list list \<Rightarrow> 's \<Rightarrow> bool" where
  "databases_paged self next_token [] s = False"
| "databases_paged self next_token (page # pages) s =
     (case glue_get_databases self (request_token next_token) s of
        (Inl x, s') \<Rightarrow> False
      | (Inr response, s') \<Rightarrow>
          DatabaseList response = page \<and>
          (if pages = [] then no_token (databases_NextToken response)
           else \<not> no_token (databases_NextToken response) \<and>
                databases_paged self (databases_NextToken response) pages s'))"

section \<open>Properties of the entity translation\<close>

lemma fold_database_input_step:
  assumes "distinct (map fst props)" and "fold database_input_step props (d, ps) = (d', ps')"
  shows "db_Name d' = db_Name d
       \<and> db_Description d' =
           (case map_of props ''Description'' of None \<Rightarrow> db_Description d | Some v \<Rightarrow> Some v)
       \<and> db_LocationUri d' =
           (case map_of props LOCATION of None \<Rightarrow> db_LocationUri d | Some v \<Rightarrow> Some v)
       \<and> (\<forall>k. map_of ps' k =
             (if k = ''Description'' \<or> k = LOCATION then map_of ps k
              else (case map_of props k of None \<Rightarrow> map_of ps k | Some v \<Rightarrow> Some v)))
       \<and> (distinct (map fst ps) \<longrightarrow> distinct (map fst ps'))"
  using assms
proof (induction props arbitrary: d ps)
  case Nil
  then show ?case by simp
next
  case (Cons kv props)
  obtain k v where kv: "kv = (k, v)" by (cases kv)
  obtain d1 ps1 where step: "database_input_step (k, v) (d, ps) = (d1, ps1)"
    by (cases "database_input_step (k, v) (d, ps)")
  from Cons.prems kv have dist: "distinct (map fst props)" and notin: "k \<notin> fst ` set props"
    by auto
  from notin have none: "map_of props k = None"
    by (simp add: map_of_eq_None_iff)
  from Cons.prems kv step have rest: "fold database_input_step props (d1, ps1) = (d', ps')"
    by simp
  note IH = Cons.IH [OF dist rest]
  show ?case
  proof (cases "k = ''Description''")
    case True
    with step have "d1 = d\<lparr>db_Description := Some v\<rparr>" "ps1 = ps"
      by (simp_all add: database_input_step_def)
    with IH True none kv show ?thesis
      by (auto simp: LOCATION_def split: option.splits)
  next
    case False
    show ?thesis
    proof (cases "k = LOCATION")
      case True
      with False step have "d1 = d\<lparr>db_LocationUri := Some v\<rparr>" "ps1 = ps"
        by (simp_all add: database_input_step_def)
      with IH True False none kv show ?thesis
        by (auto simp: LOCATION_def split: option.splits)
    next
      case notloc: False
      with False step have "d1 = d" "ps1 = AList.update k v ps"
        by (simp_all add: database_input_step_def)
      with IH False notloc none kv show ?thesis
        by (auto simp: update_conv' distinct_update split: option.splits)
    qed
  qed
qed

text \<open>
  C3. Whenever \<^verbatim>\<open>_construct_rename_table_input\<close> builds a destination entity
  (the source has a non-empty table type), the entity carries the destination
  name, and its table type, owner, properties bag, storage descriptor and
  description are those of the source: present exactly when the source has them,
  with the same value. The destination entity has no other field.
\<close>

theorem rename_input_copies_bookkeeping:
  assumes "construct_rename_table_input to_table_name glue_table = Inr rename_table_input"
  shows "rename_table_input =
           \<lparr>ti_Name = to_table_name,
            ti_TableType = tbl_TableType glue_table,
            ti_Owner = tbl_Owner glue_table,
            ti_Parameters = tbl_Parameters glue_table,
            ti_StorageDescriptor = tbl_StorageDescriptor glue_table,
            ti_Description = tbl_Description glue_table\<rparr>"
  using assms
  by (auto simp: construct_rename_table_input_def Let_def
           split: option.splits if_splits)

theorem rename_input_copies_bookkeeping_witness:
  "construct_rename_table_input ''t2''
     \<lparr>tbl_Name = ''t1'', tbl_DatabaseName = Some ''db'', tbl_TableType = Some ''EXTERNAL_TABLE'',
      tbl_Owner = Some ''alice'', tbl_Parameters = Some [(''table_type'', ''ICEBERG'')],
      tbl_StorageDescriptor = Some ''sd'', tbl_Description = None\<rparr>
   = Inr \<lparr>ti_Name = ''t2'', ti_TableType = Some ''EXTERNAL_TABLE'', ti_Owner = Some ''alice'',
          ti_Parameters = Some [(''table_type'', ''ICEBERG'')],
          ti_StorageDescriptor = Some ''sd'', ti_Description = None\<rparr>"
proof -
  obtain r where r: "construct_rename_table_input ''t2''
     \<lparr>tbl_Name = ''t1'', tbl_DatabaseName = Some ''db'', tbl_TableType = Some ''EXTERNAL_TABLE'',
      tbl_Owner = Some ''alice'', tbl_Parameters = Some [(''table_type'', ''ICEBERG'')],
      tbl_StorageDescriptor = Some ''sd'', tbl_Description = None\<rparr> = Inr r"
    by (simp add: construct_rename_table_input_def)
  from rename_input_copies_bookkeeping [OF r] r show ?thesis by simp
qed

text \<open>
  C4. For a properties dictionary (keys unique), building the namespace entity
  with \<^verbatim>\<open>_construct_database_input\<close> and reading it back as
  \<^verbatim>\<open>load_namespace_properties\<close> does gives a dictionary with the same keys and
  values, and again unique keys.
\<close>

theorem namespace_properties_round_trip:
  assumes "distinct (map fst props)"
  shows "map_of (properties_of_database (construct_database_input database_name props)) = map_of props
       \<and> distinct (map fst (properties_of_database (construct_database_input database_name props)))"
proof -
  let ?d0 = "\<lparr>db_Name = database_name, db_Description = None, db_LocationUri = None,
              db_Parameters = None\<rparr>"
  obtain d' ps' where f: "fold database_input_step props (?d0, []) = (d', ps')"
    by (cases "fold database_input_step props (?d0, [])")
  note inv = fold_database_input_step [OF assms f]
  have ent: "construct_database_input database_name props = d'\<lparr>db_Parameters := Some ps'\<rparr>"
    using f by (simp add: construct_database_input_def)
  from inv have dist: "distinct (map fst ps')" by simp
  have "map_of (properties_of_database (d'\<lparr>db_Parameters := Some ps'\<rparr>)) k = map_of props k" for k
    using inv
    by (auto simp: properties_of_database_def Let_def update_conv' LOCATION_def
             split: option.splits)
  moreover have "distinct (map fst (properties_of_database (d'\<lparr>db_Parameters := Some ps'\<rparr>)))"
    using dist
    by (auto simp: properties_of_database_def Let_def distinct_update split: option.splits)
  ultimately show ?thesis
    using ent by (simp add: fun_eq_iff)
qed

theorem namespace_properties_round_trip_witness:
  "distinct (map fst [(''owner'', ''bob''), (''location'', ''s3://bucket/db''), (''Description'', ''sales'')])
   \<and> map_of (properties_of_database (construct_database_input ''db''
        [(''owner'', ''bob''), (''location'', ''s3://bucket/db''), (''Description'', ''sales'')]))
     = map_of [(''owner'', ''bob''), (''location'', ''s3://bucket/db''), (''Description'', ''sales'')]"
proof -
  have d: "distinct (map fst [(''owner'', ''bob''), (''location'', ''s3://bucket/db''), (''Description'', ''sales'')])"
    by simp
  from namespace_properties_round_trip [OF d, of "''db''"] d show ?thesis by blast
qed

section \<open>Calls and the call log\<close>

lemma glue_invoke_calls:
  "glue_invoke cl f w = (r, w') \<Longrightarrow>
     calls w' = calls w @ [cl] \<and> store w' = store w \<and> (r, backend w') = f (backend w)"
  by (auto simp: glue_invoke_def split: prod.splits)

lemma io_invoke_calls:
  "io_invoke cl f w = (r, w') \<Longrightarrow>
     calls w' = calls w @ [cl] \<and> backend w' = backend w \<and> (r, store w') = f (store w)"
  by (auto simp: io_invoke_def split: prod.splits)

section \<open>Properties of the table lifecycle\<close>

lemma convert_glue_to_iceberg_calls:
  assumes "convert_glue_to_iceberg self g w = (r, w')"
  shows "backend w' = backend w \<and> (\<exists>cs. calls w' = calls w @ cs \<and> filter is_delete_table cs = [])"
  using assms
  by (auto simp: convert_glue_to_iceberg_def Let_def
           split: option.splits if_splits prod.splits sum.splits
           dest!: io_invoke_calls)

lemma create_glue_table_calls:
  assumes "create_glue_table self db t i w = (r, w')"
  shows "calls w' = calls w @ [CreateTable db i] \<and> store w' = store w"
  using assms
  by (auto simp: create_glue_table_def
           split: prod.splits sum.splits glue_exception.splits
           dest!: glue_invoke_calls)

lemma rename_table_register_calls:
  assumes "rename_table_register self f t w = (r, w')"
  shows "\<exists>cs. calls w' = calls w @ cs \<and> filter is_delete_table cs = []"
proof -
  let ?ft = "identifier_to_tuple_without_catalog (catalog_name self) f"
  show ?thesis
  proof (cases "identifier_to_database_and_table ?ft NoSuchTableError")
    case (Inl e)
    with assms have "w' = w" by (simp add: rename_table_register_def)
    then show ?thesis by simp
  next
    case from_ok: (Inr fp)
    obtain fd fn where fp: "fp = (fd, fn)" by (cases fp)
    show ?thesis
    proof (cases "identifier_to_database_and_table t ValueError")
      case (Inl e)
      with assms from_ok fp have "w' = w" by (simp add: rename_table_register_def)
      then show ?thesis by simp
    next
      case to_ok: (Inr tp)
      obtain td tn where tp: "tp = (td, tn)" by (cases tp)
      obtain r1 w1 where get: "glue_invoke (GetTable fd fn) (glue_get_table self fd fn) w = (r1, w1)"
        by (cases "glue_invoke (GetTable fd fn) (glue_get_table self fd fn) w")
      from glue_invoke_calls [OF get] have c1: "calls w1 = calls w @ [GetTable fd fn]" by simp
      show ?thesis
      proof (cases r1)
        case (Inl x)
        with assms from_ok fp to_ok tp get have "w' = w1"
          by (cases x) (simp_all add: rename_table_register_def)
        with c1 show ?thesis by simp
      next
        case got: (Inr g)
        obtain r2 w2 where conv: "convert_glue_to_iceberg self g w1 = (r2, w2)"
          by (cases "convert_glue_to_iceberg self g w1")
        from convert_glue_to_iceberg_calls [OF conv] obtain cs2 where
          c2: "calls w2 = calls w1 @ cs2" "filter is_delete_table cs2 = []" by blast
        show ?thesis
        proof (cases r2)
          case (Inl e)
          with assms from_ok fp to_ok tp get got conv have "w' = w2"
            by (cases e) (simp_all add: rename_table_register_def)
          with c1 c2 show ?thesis by simp
        next
          case valid: (Inr tb)
          show ?thesis
          proof (cases "construct_rename_table_input tn g")
            case (Inl e)
            with assms from_ok fp to_ok tp get got conv valid have "w' = w2"
              by (simp add: rename_table_register_def)
            with c1 c2 show ?thesis by simp
          next
            case built: (Inr inp)
            obtain r3 w3 where reg: "create_glue_table self td tn inp w2 = (r3, w3)"
              by (cases "create_glue_table self td tn inp w2")
            from create_glue_table_calls [OF reg] have c3: "calls w3 = calls w2 @ [CreateTable td inp]"
              by simp
            from assms from_ok fp to_ok tp get got conv valid built reg have "w' = w3"
              by (cases r3) (simp_all add: rename_table_register_def)
            with c1 c2 c3 show ?thesis by simp
          qed
        qed
      qed
    qed
  qed
qed

text \<open>
  C9. When \<^verbatim>\<open>rename_table\<close> fails before line 337 (the source identifier is
  invalid, the source entity is absent, the source fails validation, the
  destination entity cannot be built, or its registration is refused because the
  destination exists or its namespace is absent), that failure is the result of
  the rename, and among the calls the rename issued there is no
  \<^verbatim>\<open>delete_table\<close> at all: the source entity is never the target of a delete.
\<close>

theorem rename_failure_before_drop_issues_no_delete:
  assumes "rename_table_register self from_identifier to_identifier w = (Inl e, w')"
  shows "rename_table self from_identifier to_identifier w = (Inl e, w')
       \<and> (\<exists>cs. calls w' = calls w @ cs \<and> filter is_delete_table cs = [])"
  using assms rename_table_register_calls [OF assms]
  by (simp add: rename_table_def)

theorem rename_failure_before_drop_issues_no_delete_witness:
  "rename_table memory_catalog (IdStr ''db.nope'') (IdStr ''db.t2'') example_world =
     (Inl (NoSuchTableError ''Table does not exist: db.nope''),
      example_world\<lparr>calls := [GetTable ''db'' ''nope'']\<rparr>)
   \<and> filter is_delete_table (calls (example_world\<lparr>calls := [GetTable ''db'' ''nope'']\<rparr>)) = []
   \<and> fst (rename_table memory_catalog (IdStr ''db.t1'') (IdStr ''db.t1'') example_world) =
       Inl (TableAlreadyExistsError ''Table db.t1 already exists'')
   \<and> fst (rename_table memory_catalog (IdStr ''db.t1'') (IdStr ''other.t2'') example_world) =
       Inl (NoSuchNamespaceError ''Database other does not exist'')"
proof -
  have reg: "rename_table_register memory_catalog (IdStr ''db.nope'') (IdStr ''db.t2'') example_world =
     (Inl (NoSuchTableError ''Table does not exist: db.nope''),
      example_world\<lparr>calls := [GetTable ''db'' ''nope'']\<rparr>)"
    by (simp add: rename_table_register_def identifier_to_tuple_without_catalog_def
          identifier_to_database_and_table_def glue_invoke_def memory_catalog_def
          example_world_def)
  have "fst (rename_table_register memory_catalog (IdStr ''db.t1'') (IdStr ''db.t1'')
      example_world) = Inl (TableAlreadyExistsError ''Table db.t1 already exists'')"
    by code_simp
  then obtain w1 where reg1: "rename_table_register memory_catalog (IdStr ''db.t1'')
      (IdStr ''db.t1'') example_world =
        (Inl (TableAlreadyExistsError ''Table db.t1 already exists''), w1)"
    by (cases "rename_table_register memory_catalog (IdStr ''db.t1'') (IdStr ''db.t1'')
      example_world") simp
  have "fst (rename_table_register memory_catalog (IdStr ''db.t1'') (IdStr ''other.t2'')
      example_world) = Inl (NoSuchNamespaceError ''Database other does not exist'')"
    by code_simp
  then obtain w2 where reg2: "rename_table_register memory_catalog (IdStr ''db.t1'')
      (IdStr ''other.t2'') example_world =
        (Inl (NoSuchNamespaceError ''Database other does not exist''), w2)"
    by (cases "rename_table_register memory_catalog (IdStr ''db.t1'') (IdStr ''other.t2'')
      example_world") simp
  from rename_failure_before_drop_issues_no_delete [OF reg]
       rename_failure_before_drop_issues_no_delete [OF reg1]
       rename_failure_before_drop_issues_no_delete [OF reg2]
  show ?thesis
    by (auto simp: example_world_def)
qed

text \<open>
  C2 as the code has it. For an entity with a non-empty database name and a
  non-empty properties bag (lines 139 and 140 assert both): a missing table-type
  property fails with \<^verbatim>\<open>NoSuchPropertyException\<close>; a table type that is present
  and is not the marker, compared in lower case, fails with
  \<^verbatim>\<open>NoSuchIcebergTableError\<close>, whether or not the metadata location is present;
  a matching table type with no metadata-location property fails with
  \<^verbatim>\<open>NoSuchPropertyException\<close>; with both present and matching, the metadata is
  read from the stored location and the table carries that location.
\<close>

theorem convert_validation_order:
  assumes "tbl_Parameters glue_table = Some properties" and "properties \<noteq> []"
    and "tbl_DatabaseName glue_table = Some database_name" and "database_name \<noteq> []"
  shows "(map_of properties TABLE_TYPE = None \<longrightarrow>
            (\<exists>m. convert_glue_to_iceberg self glue_table w = (Inl (NoSuchPropertyException m), w)))
       \<and> (\<forall>ty. map_of properties TABLE_TYPE = Some ty \<and> lower ty \<noteq> ICEBERG \<longrightarrow>
            (\<exists>m. convert_glue_to_iceberg self glue_table w = (Inl (NoSuchIcebergTableError m), w)))
       \<and> (\<forall>ty. map_of properties TABLE_TYPE = Some ty \<and> lower ty = ICEBERG
                \<and> map_of properties METADATA_LOCATION = None \<longrightarrow>
            (\<exists>m. convert_glue_to_iceberg self glue_table w = (Inl (NoSuchPropertyException m), w)))
       \<and> (\<forall>ty location metadata f'.
             map_of properties TABLE_TYPE = Some ty \<and> lower ty = ICEBERG
               \<and> map_of properties METADATA_LOCATION = Some location
               \<and> read_table_metadata self location (store w) = (Inr metadata, f') \<longrightarrow>
             convert_glue_to_iceberg self glue_table w =
               (Inr \<lparr>table_identifier = [catalog_name self, database_name, tbl_Name glue_table],
                     table_metadata = metadata, table_metadata_location = location\<rparr>,
                w\<lparr>store := f', calls := calls w @ [ReadMetadata location]\<rparr>))"
  using assms
  by (simp add: convert_glue_to_iceberg_def io_invoke_def)

theorem convert_validation_order_witness:
  "convert_glue_to_iceberg memory_catalog
      (iceberg_entity ''db'' ''t1'' ''s3://b/t1/metadata/v1.json'') example_world =
     (Inr \<lparr>table_identifier = [''glue'', ''db'', ''t1''], table_metadata = example_metadata,
           table_metadata_location = ''s3://b/t1/metadata/v1.json''\<rparr>,
      example_world\<lparr>store := store example_world,
                    calls := calls example_world @ [ReadMetadata ''s3://b/t1/metadata/v1.json'']\<rparr>)
   \<and> (\<exists>m. convert_glue_to_iceberg memory_catalog untyped_entity example_world =
           (Inl (NoSuchPropertyException m), example_world))"
proof -
  have a: "tbl_Parameters (iceberg_entity ''db'' ''t1'' ''s3://b/t1/metadata/v1.json'') =
        Some [(''table_type'', ''ICEBERG''), (''metadata_location'', ''s3://b/t1/metadata/v1.json'')]"
    and b: "[(''table_type'', ''ICEBERG''), (''metadata_location'', ''s3://b/t1/metadata/v1.json'')] \<noteq> []"
    and c: "tbl_DatabaseName (iceberg_entity ''db'' ''t1'' ''s3://b/t1/metadata/v1.json'') = Some ''db''"
    and d: "''db'' \<noteq> []"
    by (simp_all add: iceberg_entity_def)
  have low: "lower ''ICEBERG'' = ICEBERG"
    by (simp add: lower_def lower_char_def ICEBERG_def)
  have rd: "read_table_metadata memory_catalog ''s3://b/t1/metadata/v1.json'' (store example_world)
              = (Inr example_metadata, store example_world)"
    by (simp add: memory_catalog_def example_world_def)
  have nm: "tbl_Name (iceberg_entity ''db'' ''t1'' ''s3://b/t1/metadata/v1.json'') = ''t1''"
     and cn: "catalog_name memory_catalog = ''glue''"
    by (simp_all add: iceberg_entity_def memory_catalog_def)
  have a': "tbl_Parameters untyped_entity = Some [(''metadata_location'', ''s3://b/t1/metadata/v1.json'')]"
    and b': "[(''metadata_location'', ''s3://b/t1/metadata/v1.json'')] \<noteq> []"
    and c': "tbl_DatabaseName untyped_entity = Some ''db''"
    by (simp_all add: untyped_entity_def)
  from convert_validation_order [OF a b c d, of memory_catalog example_world] low rd nm cn
  have first: "convert_glue_to_iceberg memory_catalog
      (iceberg_entity ''db'' ''t1'' ''s3://b/t1/metadata/v1.json'') example_world =
     (Inr \<lparr>table_identifier = [''glue'', ''db'', ''t1''], table_metadata = example_metadata,
           table_metadata_location = ''s3://b/t1/metadata/v1.json''\<rparr>,
      example_world\<lparr>store := store example_world,
                    calls := calls example_world @ [ReadMetadata ''s3://b/t1/metadata/v1.json'']\<rparr>)"
    by (simp add: TABLE_TYPE_def METADATA_LOCATION_def)
  from convert_validation_order [OF a' b' c' d, of memory_catalog example_world]
  have second: "\<exists>m. convert_glue_to_iceberg memory_catalog untyped_entity example_world =
           (Inl (NoSuchPropertyException m), example_world)"
    by (simp add: TABLE_TYPE_def)
  from first second show ?thesis by blast
qed

text \<open>
  C2 as stated fails: an entity whose properties bag has the metadata location but
  no table-type property is refused with \<^verbatim>\<open>NoSuchPropertyException\<close>, the
  missing-property kind, not with \<^verbatim>\<open>NoSuchIcebergTableError\<close>.
\<close>

theorem missing_table_type_is_missing_property_counterexample:
  "map_of [(''metadata_location'', ''s3://b/t1/metadata/v1.json'')] TABLE_TYPE = None
   \<and> tbl_Parameters untyped_entity = Some [(''metadata_location'', ''s3://b/t1/metadata/v1.json'')]
   \<and> fst (convert_glue_to_iceberg memory_catalog untyped_entity example_world) =
       Inl (NoSuchPropertyException
              ''Property table_type missing, could not determine type: db.t1'')"
  by (simp add: convert_glue_to_iceberg_def untyped_entity_def TABLE_TYPE_def)

text \<open>
  The three ends of the failure path of lines 337-350, for any backend: the
  rollback succeeded, the rollback raised \<^verbatim>\<open>NoSuchTableError\<close>, the rollback
  raised anything else.
\<close>

lemma rename_table_rollback_outcomes:
  assumes "rename_table_register self from_identifier to_identifier w =
             (Inr ((from_database_name, from_table_name), (to_database_name, to_table_name)), w3)"
    and "drop_table self from_identifier w3 = (Inl e, w4)"
    and "drop_table self to_identifier w4 = (r, w5)"
  shows "rename_table self from_identifier to_identifier w =
     (case r of
        Inr u \<Rightarrow>
          Inl (ValueError (''Failed to drop old table '' @ from_database_name @ ''.''
                 @ from_table_name @ ''. '' @ ''Rolled back table creation for ''
                 @ to_database_name @ ''.'' @ to_table_name @ ''.''))
      | Inl (NoSuchTableError m) \<Rightarrow>
          Inl (ValueError (''Failed to drop old table '' @ from_database_name @ ''.''
                 @ from_table_name @ ''. '' @ ''Failed to roll back table creation for ''
                 @ to_database_name @ ''.'' @ to_table_name @ ''. ''
                 @ ''Please clean up manually''))
      | Inl e2 \<Rightarrow> Inl e2, w5)"
  using assms
  by (simp add: rename_table_def split: sum.splits error.splits)

text \<open>
  C1 at a caller who may not delete tables: the source delete is refused, the
  compensating delete of the destination is refused too, and \<^verbatim>\<open>rename_table\<close>
  ends with the backend's own access-denied error, which carries no word about the
  two entities or about cleaning up. Both tables are then in the metastore.
\<close>

theorem rename_rollback_refused_propagates_backend_error:
  "fst (rename_table no_delete_catalog (IdStr ''db.t1'') (IdStr ''db.t2'') example_world) =
     Inl (GlueError (ClientError ''AccessDeniedException''))
   \<and> map fst (mem_tables (backend (snd
        (rename_table no_delete_catalog (IdStr ''db.t1'') (IdStr ''db.t2'') example_world)))) =
     [(''db'', ''t1''), (''db'', ''t2'')]
   \<and> filter is_delete_table (calls (snd
        (rename_table no_delete_catalog (IdStr ''db.t1'') (IdStr ''db.t2'') example_world))) =
     [DeleteTable ''db'' ''t1'', DeleteTable ''db'' ''t2'']"
  by code_simp

text \<open>
  C10. In \<^verbatim>\<open>create_table\<close> the metadata file is written before the entity is
  registered: once the location is resolved and the write has succeeded, a
  registration that fails (the table exists, the namespace is missing, or any
  other backend error) is the result of \<^verbatim>\<open>create_table\<close>, the content store is
  left exactly as the write left it, and the calls issued from then on are the
  write followed by the registration, with nothing after: the written metadata
  file is not removed.
\<close>

theorem create_table_writes_metadata_before_registering:
  assumes "identifier_to_database_and_table identifier ValueError = Inr (database_name, table_name)"
    and "resolve_table_location self location database_name table_name w = (Inr table_location, w0)"
    and "metadata_location = get_metadata_location self table_location"
    and "metadata = new_table_metadata table_location schema partition_spec sort_order properties"
    and "write_table_metadata self metadata metadata_location (store w0) = (Inr (), written)"
    and "create_glue_table self database_name table_name
           (construct_create_table_input table_name metadata_location properties)
           (w0\<lparr>store := written, calls := calls w0 @ [WriteMetadata metadata metadata_location]\<rparr>)
         = (Inl e, w2)"
  shows "create_table self identifier schema location partition_spec sort_order properties w
           = (Inl e, w2)
       \<and> store w2 = written
       \<and> calls w2 = calls w0 @
           [WriteMetadata metadata metadata_location,
            CreateTable database_name
              (construct_create_table_input table_name metadata_location properties)]"
proof -
  let ?w1 = "w0\<lparr>store := written, calls := calls w0 @ [WriteMetadata metadata metadata_location]\<rparr>"
  have wr: "io_invoke (WriteMetadata metadata metadata_location)
              (write_table_metadata self metadata metadata_location) w0 = (Inr (), ?w1)"
    using assms(5) by (simp add: io_invoke_def)
  have res: "create_table self identifier schema location partition_spec sort_order properties w
           = (Inl e, w2)"
    using assms(1,2,6) wr
    by (simp add: create_table_def Let_def assms(3)[symmetric] assms(4)[symmetric])
  from create_glue_table_calls [OF assms(6)] res show ?thesis by simp
qed

theorem create_table_writes_metadata_before_registering_witness:
  "fst (create_table memory_catalog (IdStr ''db.t1'') ''schema'' None ''spec'' ''order'' []
          example_world) = Inl (TableAlreadyExistsError ''Table db.t1 already exists'')
   \<and> map_of (store (snd (create_table memory_catalog (IdStr ''db.t1'') ''schema'' None ''spec''
          ''order'' [] example_world)))
        ''s3://warehouse/db.db/t1/metadata/00000-a.metadata.json''
      = Some (new_table_metadata ''s3://warehouse/db.db/t1'' ''schema'' ''spec'' ''order'' [])
   \<and> calls (snd (create_table memory_catalog (IdStr ''db.t1'') ''schema'' None ''spec''
          ''order'' [] example_world))
      = [GetDatabase ''db'',
         WriteMetadata (new_table_metadata ''s3://warehouse/db.db/t1'' ''schema'' ''spec'' ''order'' [])
           ''s3://warehouse/db.db/t1/metadata/00000-a.metadata.json'',
         CreateTable ''db'' (construct_create_table_input ''t1''
           ''s3://warehouse/db.db/t1/metadata/00000-a.metadata.json'' [])]"
proof -
  let ?ml = "''s3://warehouse/db.db/t1/metadata/00000-a.metadata.json''"
  let ?md = "new_table_metadata ''s3://warehouse/db.db/t1'' ''schema'' ''spec'' ''order'' []"
  let ?w0 = "example_world\<lparr>calls := [GetDatabase ''db'']\<rparr>"
  let ?written = "store example_world @ [(?ml, ?md)]"
  let ?w2 = "example_world\<lparr>store := ?written,
               calls := [GetDatabase ''db'', WriteMetadata ?md ?ml,
                         CreateTable ''db'' (construct_create_table_input ''t1'' ?ml [])]\<rparr>"
  have a1: "identifier_to_database_and_table (IdStr ''db.t1'') ValueError = Inr (''db'', ''t1'')"
    by (simp add: identifier_to_database_and_table_def)
  have a2: "resolve_table_location memory_catalog None ''db'' ''t1'' example_world
              = (Inr ''s3://warehouse/db.db/t1'', ?w0)"
    by (simp add: resolve_table_location_def default_table_location_def
          load_namespace_properties_def identifier_to_database_def glue_invoke_def
          properties_of_database_def memory_catalog_def example_world_def)
  have a3: "?ml = get_metadata_location memory_catalog ''s3://warehouse/db.db/t1''"
    by (simp add: get_metadata_location_def memory_catalog_def)
  have a5: "write_table_metadata memory_catalog ?md ?ml (store ?w0) = (Inr (), ?written)"
    by (simp add: memory_catalog_def example_world_def)
  have a6: "create_glue_table memory_catalog ''db'' ''t1'' (construct_create_table_input ''t1'' ?ml [])
           (?w0\<lparr>store := ?written, calls := calls ?w0 @ [WriteMetadata ?md ?ml]\<rparr>)
         = (Inl (TableAlreadyExistsError ''Table db.t1 already exists''), ?w2)"
    by (simp add: create_glue_table_def glue_invoke_def memory_catalog_def example_world_def
          construct_create_table_input_def)
  from create_table_writes_metadata_before_registering [OF a1 a2 a3 refl a5 a6]
  show ?thesis by (simp add: example_world_def)
qed

section \<open>Properties of the listings\<close>

lemma list_tables_loop_pages:
  "tables_paged self db tok pages (backend w) \<Longrightarrow>
   \<exists>w'. list_tables_loop self db tok acc w = Some (Inr (acc @ concat pages), w')"
proof (induction pages arbitrary: tok acc w)
  case Nil
  then show ?case by simp
next
  case (Cons page pages)
  obtain r s' where call: "glue_get_tables self db (request_token tok) (backend w) = (r, s')"
    by (cases "glue_get_tables self db (request_token tok) (backend w)")
  with Cons.prems obtain resp where r: "r = Inr resp" by (cases r) auto
  let ?w' = "w\<lparr>backend := s', calls := calls w @ [GetTables db (request_token tok)]\<rparr>"
  have inv: "glue_invoke (GetTables db (request_token tok))
               (glue_get_tables self db (request_token tok)) w = (Inr resp, ?w')"
    using call r by (simp add: glue_invoke_def)
  from Cons.prems call r have page: "TableList resp = page" by simp
  show ?case
  proof (cases "pages = []")
    case True
    with Cons.prems call r have "no_token (tables_NextToken resp)" by simp
    with inv page True show ?thesis
      by (subst list_tables_loop.simps) simp
  next
    case False
    with Cons.prems call r have nt: "\<not> no_token (tables_NextToken resp)"
      and rest: "tables_paged self db (tables_NextToken resp) pages (backend ?w')" by simp_all
    from Cons.IH [OF rest, of "acc @ page"] obtain w'' where
      "list_tables_loop self db (tables_NextToken resp) (acc @ page) ?w'
         = Some (Inr ((acc @ page) @ concat pages), w'')"
      by blast
    with inv page nt show ?thesis
      by (subst list_tables_loop.simps) simp
  qed
qed

lemma list_namespaces_loop_pages:
  "databases_paged self tok pages (backend w) \<Longrightarrow>
   \<exists>w'. list_namespaces_loop self tok acc w = Some (Inr (acc @ concat pages), w')"
proof (induction pages arbitrary: tok acc w)
  case Nil
  then show ?case by simp
next
  case (Cons page pages)
  obtain r s' where call: "glue_get_databases self (request_token tok) (backend w) = (r, s')"
    by (cases "glue_get_databases self (request_token tok) (backend w)")
  with Cons.prems obtain resp where r: "r = Inr resp" by (cases r) auto
  let ?w' = "w\<lparr>backend := s', calls := calls w @ [GetDatabases (request_token tok)]\<rparr>"
  have inv: "glue_invoke (GetDatabases (request_token tok))
               (glue_get_databases self (request_token tok)) w = (Inr resp, ?w')"
    using call r by (simp add: glue_invoke_def)
  from Cons.prems call r have page: "DatabaseList resp = page" by simp
  show ?case
  proof (cases "pages = []")
    case True
    with Cons.prems call r have "no_token (databases_NextToken resp)" by simp
    with inv page True show ?thesis
      by (subst list_namespaces_loop.simps) simp
  next
    case False
    with Cons.prems call r have nt: "\<not> no_token (databases_NextToken resp)"
      and rest: "databases_paged self (databases_NextToken resp) pages (backend ?w')" by simp_all
    from Cons.IH [OF rest, of "acc @ page"] obtain w'' where
      "list_namespaces_loop self (databases_NextToken resp) (acc @ page) ?w'
         = Some (Inr ((acc @ page) @ concat pages), w'')"
      by blast
    with inv page nt show ?thesis
      by (subst list_namespaces_loop.simps) simp
  qed
qed

lemma list_tables_loop_calls:
  assumes "list_tables_loop self db tok acc w = Some y"
  shows "\<exists>cs. calls (snd y) = calls w @ cs \<and> filter is_get_tables cs = cs \<and> store (snd y) = store w"
  using assms
proof (induct rule: list_tables_loop.raw_induct[rotated 1, consumes 1, case_names step])
  case (step loop self db tok acc w y)
  obtain r w1 where inv: "glue_invoke (GetTables db (request_token tok))
            (glue_get_tables self db (request_token tok)) w = (r, w1)"
    by (cases "glue_invoke (GetTables db (request_token tok))
            (glue_get_tables self db (request_token tok)) w")
  note call = glue_invoke_calls [OF inv]
  show ?case
  proof (cases r)
    case (Inl x)
    with step(2) inv have "y = (Inl x, w1)" by simp
    with call show ?thesis by simp
  next
    case (Inr resp)
    show ?thesis
    proof (cases "no_token (tables_NextToken resp)")
      case True
      with step(2) inv Inr have "y = (Inr (acc @ TableList resp), w1)" by simp
      with call show ?thesis by simp
    next
      case False
      with step(2) inv Inr have "loop self db (tables_NextToken resp) (acc @ TableList resp) w1 = Some y"
        by simp
      from step(1) [OF this] obtain cs where
        "calls (snd y) = calls w1 @ cs" "filter is_get_tables cs = cs" "store (snd y) = store w1"
        by blast
      with call show ?thesis by simp
    qed
  qed
qed

text \<open>
  C6. When the backend serves a result set in pages linked by continuation tokens
  (one page or many, empty or not), \<^verbatim>\<open>list_namespaces\<close> with an empty argument
  and \<^verbatim>\<open>list_tables\<close> return one identifier per entry of the concatenation of
  all pages, in the backend's order. The request of lines 437 and 410, whose
  response is dropped, is assumed to succeed.
\<close>

theorem listings_return_all_pages_in_order:
  "(\<not> truthy namespace
      \<and> glue_get_databases self None (backend w) = (Inr first_response, s0)
      \<and> databases_paged self None database_pages s0
    \<longrightarrow> (\<exists>w'. list_namespaces self namespace w =
           Some (Inr (map (\<lambda>database. identifier_to_tuple (IdStr (db_Name database)))
                        (concat database_pages)), w')))
 \<and> (identifier_to_database table_namespace NoSuchNamespaceError = Inr database_name
      \<and> glue_get_tables self database_name None (backend w) = (Inr first_tables, s1)
      \<and> tables_paged self database_name None table_pages s1
    \<longrightarrow> (\<exists>w'. list_tables self table_namespace w =
           Some (Inr (map (\<lambda>table. [database_name, tbl_Name table]) (concat table_pages)), w')))"
proof (intro conjI impI)
  assume a: "\<not> truthy namespace
      \<and> glue_get_databases self None (backend w) = (Inr first_response, s0)
      \<and> databases_paged self None database_pages s0"
  let ?w0 = "w\<lparr>backend := s0, calls := calls w @ [GetDatabases None]\<rparr>"
  from a have inv: "glue_invoke (GetDatabases None) (glue_get_databases self None) w
                      = (Inr first_response, ?w0)"
    by (simp add: glue_invoke_def)
  from a have "databases_paged self None database_pages (backend ?w0)" by simp
  from list_namespaces_loop_pages [OF this, of "[]"] obtain w' where
    "list_namespaces_loop self None [] ?w0 = Some (Inr (concat database_pages), w')"
    by auto
  with a inv show "\<exists>w'. list_namespaces self namespace w =
           Some (Inr (map (\<lambda>database. identifier_to_tuple (IdStr (db_Name database)))
                        (concat database_pages)), w')"
    by (simp add: list_namespaces_def)
next
  assume a: "identifier_to_database table_namespace NoSuchNamespaceError = Inr database_name
      \<and> glue_get_tables self database_name None (backend w) = (Inr first_tables, s1)
      \<and> tables_paged self database_name None table_pages s1"
  let ?w0 = "w\<lparr>backend := s1, calls := calls w @ [GetTables database_name None]\<rparr>"
  from a have inv: "glue_invoke (GetTables database_name None)
                      (glue_get_tables self database_name None) w = (Inr first_tables, ?w0)"
    by (simp add: glue_invoke_def)
  from a have "tables_paged self database_name None table_pages (backend ?w0)" by simp
  from list_tables_loop_pages [OF this, of "[]"] obtain w' where
    "list_tables_loop self database_name None [] ?w0 = Some (Inr (concat table_pages), w')"
    by auto
  with a inv show "\<exists>w'. list_tables self table_namespace w =
           Some (Inr (map (\<lambda>table. [database_name, tbl_Name table]) (concat table_pages)), w')"
    by (simp add: list_tables_def)
qed

theorem listings_return_all_pages_in_order_witness:
  "(\<exists>w'. list_namespaces memory_catalog (IdTuple []) listing_world =
           Some (Inr [[''db''], [''empty''], [''sales'']], w'))
 \<and> (\<exists>w'. list_tables memory_catalog (IdStr ''db'') listing_world =
           Some (Inr [[''db'', ''t1''], [''db'', ''t2''], [''db'', ''t3'']], w'))"
proof -
  let ?dpages = "[[plain_database ''db''], [plain_database ''empty''], [plain_database ''sales'']]"
  let ?tpages = "[[iceberg_entity ''db'' ''t1'' ''s3://b/t1/metadata/v1.json''],
                  [iceberg_entity ''db'' ''t2'' ''s3://b/t2/metadata/v1.json''],
                  [iceberg_entity ''db'' ''t3'' ''s3://b/t3/metadata/v1.json'']]"
  have d1: "\<not> truthy (IdTuple [])" by simp
  have d2: "glue_get_databases memory_catalog None (backend listing_world) =
      (Inr \<lparr>DatabaseList = [plain_database ''db''], databases_NextToken = Some ''empty''\<rparr>,
       backend listing_world)"
    by code_simp
  have d3: "databases_paged memory_catalog None ?dpages (backend listing_world)"
    by code_simp
  have t1: "identifier_to_database (IdStr ''db'') NoSuchNamespaceError = Inr ''db''"
    by (simp add: identifier_to_database_def)
  have t2: "glue_get_tables memory_catalog ''db'' None (backend listing_world) =
      (Inr \<lparr>TableList = [iceberg_entity ''db'' ''t1'' ''s3://b/t1/metadata/v1.json''],
             tables_NextToken = Some ''t2''\<rparr>,
       backend listing_world)"
    by code_simp
  have t3: "tables_paged memory_catalog ''db'' None ?tpages (backend listing_world)"
    by code_simp
  note inst = listings_return_all_pages_in_order
    [where namespace = "IdTuple []" and self = memory_catalog and w = listing_world
       and first_response = "\<lparr>DatabaseList = [plain_database ''db''],
                                databases_NextToken = Some ''empty''\<rparr>"
       and ?s0.0 = "backend listing_world" and database_pages = ?dpages
       and table_namespace = "IdStr ''db''" and database_name = "''db''"
       and first_tables = "\<lparr>TableList = [iceberg_entity ''db'' ''t1'' ''s3://b/t1/metadata/v1.json''],
                               tables_NextToken = Some ''t2''\<rparr>"
       and ?s1.0 = "backend listing_world" and table_pages = ?tpages]
  from inst d1 d2 d3 t1 t2 t3 show ?thesis
    by (simp add: plain_database_def iceberg_entity_def)
qed


lemma list_namespaces_loop_calls:
  assumes "list_namespaces_loop self tok acc w = Some y"
  shows "\<exists>cs. calls (snd y) = calls w @ cs \<and> filter is_get_databases cs = cs \<and> store (snd y) = store w"
  using assms
proof (induct rule: list_namespaces_loop.raw_induct[rotated 1, consumes 1, case_names step])
  case (step loop self tok acc w y)
  obtain r w1 where inv: "glue_invoke (GetDatabases (request_token tok))
            (glue_get_databases self (request_token tok)) w = (r, w1)"
    by (cases "glue_invoke (GetDatabases (request_token tok))
            (glue_get_databases self (request_token tok)) w")
  note call = glue_invoke_calls [OF inv]
  show ?case
  proof (cases r)
    case (Inl x)
    with step(2) inv have "y = (Inl x, w1)" by simp
    with call show ?thesis by simp
  next
    case (Inr resp)
    show ?thesis
    proof (cases "no_token (databases_NextToken resp)")
      case True
      with step(2) inv Inr have "y = (Inr (acc @ DatabaseList resp), w1)" by simp
      with call show ?thesis by simp
    next
      case False
      with step(2) inv Inr
      have "loop self (databases_NextToken resp) (acc @ DatabaseList resp) w1 = Some y"
        by simp
      from step(1) [OF this] obtain cs where
        "calls (snd y) = calls w1 @ cs" "filter is_get_databases cs = cs" "store (snd y) = store w1"
        by blast
      with call show ?thesis by simp
    qed
  qed
qed


lemma list_tables_calls:
  assumes "list_tables self namespace w = Some (r, w1)"
  shows "\<exists>cs. calls w1 = calls w @ cs \<and> filter is_get_tables cs = cs"
proof (cases "identifier_to_database namespace NoSuchNamespaceError")
  case (Inl e)
  with assms have "w1 = w" by (simp add: list_tables_def)
  then show ?thesis by simp
next
  case (Inr db)
  obtain r0 w0 where inv: "glue_invoke (GetTables db None) (glue_get_tables self db None) w = (r0, w0)"
    by (cases "glue_invoke (GetTables db None) (glue_get_tables self db None) w")
  from glue_invoke_calls [OF inv] have c0: "calls w0 = calls w @ [GetTables db None]" by simp
  show ?thesis
  proof (cases r0)
    case (Inl x)
    with assms Inr inv have "w1 = w0" by (cases x) (simp_all add: list_tables_def)
    with c0 show ?thesis by simp
  next
    case first: (Inr resp)
    show ?thesis
    proof (cases "list_tables_loop self db None [] w0")
      case None
      with assms Inr inv first show ?thesis by (simp add: list_tables_def)
    next
      case (Some y)
      from list_tables_loop_calls [OF Some] obtain cs where
        cs: "calls (snd y) = calls w0 @ cs" "filter is_get_tables cs = cs" by blast
      obtain r' w' where y: "y = (r', w')" by (cases y)
      from assms Inr inv first Some y have "w1 = w'"
        by (auto simp: list_tables_def split: sum.splits glue_exception.splits)
      with cs c0 y show ?thesis by simp
    qed
  qed
qed


text \<open>
  C7. \<^verbatim>\<open>drop_namespace\<close> first lists the tables of the namespace, and up to the
  end of the listing it issues page requests only. An invalid identifier fails
  before any call; a listing that does not end leaves the drop without a result;
  if the listing fails with \<^verbatim>\<open>NoSuchNamespaceError\<close>, so does the drop; if the
  listing fails with any other error, the drop fails with that error; if the
  listing has an entry, the drop fails with \<^verbatim>\<open>NamespaceNotEmptyError\<close>. In each of
  these cases the world is the one the listing left, so no delete was issued. Only
  if the listing is empty is \<^verbatim>\<open>delete_database\<close> called on the metastore, once,
  for this namespace: the drop returns its outcome and the metastore is in the
  state that call left.
\<close>

theorem drop_namespace_checks_emptiness_first:
  "(\<forall>e. identifier_to_database namespace NoSuchNamespaceError = Inl e \<longrightarrow>
       drop_namespace self namespace w = Some (Inl e, w))
 \<and> (\<forall>database_name.
       identifier_to_database namespace NoSuchNamespaceError = Inr database_name \<longrightarrow>
       (list_tables self (IdStr database_name) w = None \<longrightarrow>
          drop_namespace self namespace w = None)
     \<and> (\<forall>listing w1.
          list_tables self (IdStr database_name) w = Some (listing, w1) \<longrightarrow>
            (\<exists>cs. calls w1 = calls w @ cs \<and> filter is_get_tables cs = cs)
          \<and> (\<forall>m. listing = Inl (NoSuchNamespaceError m) \<longrightarrow>
                 drop_namespace self namespace w =
                   Some (Inl (NoSuchNamespaceError
                                (''Database does not exist: '' @ database_name)), w1))
          \<and> (\<forall>e. listing = Inl e \<and> (\<forall>m. e \<noteq> NoSuchNamespaceError m) \<longrightarrow>
                 drop_namespace self namespace w = Some (Inl e, w1))
          \<and> (\<forall>table_list. listing = Inr table_list \<and> table_list \<noteq> [] \<longrightarrow>
                 drop_namespace self namespace w =
                   Some (Inl (NamespaceNotEmptyError
                                (''Database '' @ database_name @ '' is not empty'')), w1))
          \<and> (listing = Inr [] \<longrightarrow>
                 drop_namespace self namespace w =
                   Some (case glue_delete_database self database_name (backend w1) of
                           (Inl x, s') \<Rightarrow>
                             (Inl (GlueError x),
                              w1\<lparr>backend := s',
                                 calls := calls w1 @ [DeleteDatabase database_name]\<rparr>)
                         | (Inr u, s') \<Rightarrow>
                             (Inr (),
                              w1\<lparr>backend := s',
                                 calls := calls w1 @ [DeleteDatabase database_name]\<rparr>)))))"
proof (intro conjI allI impI)
  fix e assume "identifier_to_database namespace NoSuchNamespaceError = Inl e"
  then show "drop_namespace self namespace w = Some (Inl e, w)"
    by (simp add: drop_namespace_def)
next
  fix database_name
  assume "identifier_to_database namespace NoSuchNamespaceError = Inr database_name"
    and "list_tables self (IdStr database_name) w = None"
  then show "drop_namespace self namespace w = None"
    by (simp add: drop_namespace_def)
next
  fix database_name listing w1
  assume "identifier_to_database namespace NoSuchNamespaceError = Inr database_name"
    and l: "list_tables self (IdStr database_name) w = Some (listing, w1)"
  show "\<exists>cs. calls w1 = calls w @ cs \<and> filter is_get_tables cs = cs"
    by (rule list_tables_calls [OF l])
next
  fix database_name listing w1 m
  assume "identifier_to_database namespace NoSuchNamespaceError = Inr database_name"
    and "list_tables self (IdStr database_name) w = Some (listing, w1)"
    and "listing = Inl (NoSuchNamespaceError m)"
  then show "drop_namespace self namespace w =
      Some (Inl (NoSuchNamespaceError (''Database does not exist: '' @ database_name)), w1)"
    by (simp add: drop_namespace_def)
next
  fix database_name listing w1 e
  assume i: "identifier_to_database namespace NoSuchNamespaceError = Inr database_name"
    and l: "list_tables self (IdStr database_name) w = Some (listing, w1)"
    and e: "listing = Inl e \<and> (\<forall>m. e \<noteq> NoSuchNamespaceError m)"
  then show "drop_namespace self namespace w = Some (Inl e, w1)"
    by (cases e) (simp_all add: drop_namespace_def)
next
  fix database_name listing w1 table_list
  assume "identifier_to_database namespace NoSuchNamespaceError = Inr database_name"
    and "list_tables self (IdStr database_name) w = Some (listing, w1)"
    and "listing = Inr table_list \<and> table_list \<noteq> []"
  then show "drop_namespace self namespace w =
      Some (Inl (NamespaceNotEmptyError (''Database '' @ database_name @ '' is not empty'')), w1)"
    by (simp add: drop_namespace_def)
next
  fix database_name listing w1
  assume i: "identifier_to_database namespace NoSuchNamespaceError = Inr database_name"
    and l: "list_tables self (IdStr database_name) w = Some (listing, w1)"
    and e: "listing = Inr []"
  obtain r s' where d: "glue_delete_database self database_name (backend w1) = (r, s')"
    by (cases "glue_delete_database self database_name (backend w1)")
  with i l e show "drop_namespace self namespace w =
      Some (case glue_delete_database self database_name (backend w1) of
              (Inl x, s') \<Rightarrow>
                (Inl (GlueError x),
                 w1\<lparr>backend := s', calls := calls w1 @ [DeleteDatabase database_name]\<rparr>)
            | (Inr u, s') \<Rightarrow>
                (Inr (),
                 w1\<lparr>backend := s', calls := calls w1 @ [DeleteDatabase database_name]\<rparr>))"
    by (cases r) (simp_all add: drop_namespace_def glue_invoke_def)
qed

theorem drop_namespace_checks_emptiness_first_witness:
  "drop_namespace memory_catalog (IdStr ''db'') listing_world =
     Some (Inl (NamespaceNotEmptyError ''Database db is not empty''),
           listing_world\<lparr>calls := [GetTables ''db'' None, GetTables ''db'' None,
                                    GetTables ''db'' (Some ''t2''), GetTables ''db'' (Some ''t3'')]\<rparr>)
 \<and> drop_namespace memory_catalog (IdStr ''empty'') listing_world =
     Some (Inr (),
           listing_world\<lparr>backend := (backend listing_world)\<lparr>mem_databases :=
                             [(''db'', plain_database ''db''), (''sales'', plain_database ''sales'')]\<rparr>,
                          calls := [GetTables ''empty'' None, GetTables ''empty'' None,
                                    DeleteDatabase ''empty'']\<rparr>)
 \<and> drop_namespace memory_catalog (IdStr ''nope'') listing_world =
     Some (Inl (NoSuchNamespaceError ''Database does not exist: nope''),
           listing_world\<lparr>calls := [GetTables ''nope'' None]\<rparr>)
 \<and> drop_namespace throttled_catalog (IdStr ''db'') listing_world =
     Some (Inl (GlueError (ClientError ''ThrottlingException'')),
           listing_world\<lparr>calls := [GetTables ''db'' None, GetTables ''db'' None,
                                    GetTables ''db'' (Some ''t2'')]\<rparr>)
 \<and> drop_namespace memory_catalog (IdTuple [''db'', ''inner'']) listing_world =
     Some (Inl (NoSuchNamespaceError
                  ''Invalid database, hierarchical namespaces are not supported''),
           listing_world)"
proof -
  have i1: "identifier_to_database (IdStr ''db'') NoSuchNamespaceError = Inr ''db''"
    and i2: "identifier_to_database (IdStr ''empty'') NoSuchNamespaceError = Inr ''empty''"
    and i3: "identifier_to_database (IdStr ''nope'') NoSuchNamespaceError = Inr ''nope''"
    and i5: "identifier_to_database (IdTuple [''db'', ''inner'']) NoSuchNamespaceError =
               Inl (NoSuchNamespaceError
                      ''Invalid database, hierarchical namespaces are not supported'')"
    by (simp_all add: identifier_to_database_def)
  have l1: "list_tables memory_catalog (IdStr ''db'') listing_world =
      Some (Inr [[''db'', ''t1''], [''db'', ''t2''], [''db'', ''t3'']],
            listing_world\<lparr>calls := [GetTables ''db'' None, GetTables ''db'' None,
                                     GetTables ''db'' (Some ''t2''), GetTables ''db'' (Some ''t3'')]\<rparr>)"
    by code_simp
  have l2: "list_tables memory_catalog (IdStr ''empty'') listing_world =
      Some (Inr [], listing_world\<lparr>calls := [GetTables ''empty'' None, GetTables ''empty'' None]\<rparr>)"
    by code_simp
  have d2: "glue_delete_database memory_catalog ''empty''
              (backend (listing_world\<lparr>calls := [GetTables ''empty'' None, GetTables ''empty'' None]\<rparr>))
            = (Inr (), (backend listing_world)\<lparr>mem_databases :=
                             [(''db'', plain_database ''db''), (''sales'', plain_database ''sales'')]\<rparr>)"
    by code_simp
  have l3: "list_tables memory_catalog (IdStr ''nope'') listing_world =
      Some (Inl (NoSuchNamespaceError ''Database does not exist: nope''),
            listing_world\<lparr>calls := [GetTables ''nope'' None]\<rparr>)"
    by code_simp
  have l4: "list_tables throttled_catalog (IdStr ''db'') listing_world =
      Some (Inl (GlueError (ClientError ''ThrottlingException'')),
            listing_world\<lparr>calls := [GetTables ''db'' None, GetTables ''db'' None,
                                     GetTables ''db'' (Some ''t2'')]\<rparr>)"
    by code_simp
  note t = drop_namespace_checks_emptiness_first
  from t [of "IdStr ''db''" memory_catalog listing_world] i1 l1
  have first: "drop_namespace memory_catalog (IdStr ''db'') listing_world =
     Some (Inl (NamespaceNotEmptyError ''Database db is not empty''),
           listing_world\<lparr>calls := [GetTables ''db'' None, GetTables ''db'' None,
                                    GetTables ''db'' (Some ''t2''), GetTables ''db'' (Some ''t3'')]\<rparr>)"
    by simp
  from t [of "IdStr ''empty''" memory_catalog listing_world] i2 l2 d2
  have second: "drop_namespace memory_catalog (IdStr ''empty'') listing_world =
     Some (Inr (),
           listing_world\<lparr>backend := (backend listing_world)\<lparr>mem_databases :=
                             [(''db'', plain_database ''db''), (''sales'', plain_database ''sales'')]\<rparr>,
                          calls := [GetTables ''empty'' None, GetTables ''empty'' None,
                                    DeleteDatabase ''empty'']\<rparr>)"
    by simp
  from t [of "IdStr ''nope''" memory_catalog listing_world] i3 l3
  have third: "drop_namespace memory_catalog (IdStr ''nope'') listing_world =
     Some (Inl (NoSuchNamespaceError ''Database does not exist: nope''),
           listing_world\<lparr>calls := [GetTables ''nope'' None]\<rparr>)"
    by simp
  from t [of "IdStr ''db''" throttled_catalog listing_world] i1 l4
  have fourth: "drop_namespace throttled_catalog (IdStr ''db'') listing_world =
     Some (Inl (GlueError (ClientError ''ThrottlingException'')),
           listing_world\<lparr>calls := [GetTables ''db'' None, GetTables ''db'' None,
                                    GetTables ''db'' (Some ''t2'')]\<rparr>)"
    by simp
  from t [of "IdTuple [''db'', ''inner'']" memory_catalog listing_world] i5
  have fifth: "drop_namespace memory_catalog (IdTuple [''db'', ''inner'']) listing_world =
     Some (Inl (NoSuchNamespaceError
                  ''Invalid database, hierarchical namespaces are not supported''),
           listing_world)"
    by simp
  from first second third fourth fifth show ?thesis by blast
qed

text \<open>
  C8. \<^verbatim>\<open>list_namespaces\<close> with a non-empty argument returns the empty list and
  issues no call; with an empty argument, whenever it returns, its first call is a
  page request for the databases.
\<close>

theorem list_namespaces_of_a_prefix_is_empty:
  "(truthy namespace \<longrightarrow> list_namespaces self namespace w = Some (Inr [], w))
 \<and> (\<not> truthy namespace \<longrightarrow>
      (\<forall>r w'. list_namespaces self namespace w = Some (r, w') \<longrightarrow>
               (\<exists>cs. calls w' = calls w @ GetDatabases None # cs)))"
proof (intro conjI allI impI)
  assume "truthy namespace"
  then show "list_namespaces self namespace w = Some (Inr [], w)"
    by (simp add: list_namespaces_def)
next
  fix r w'
  assume nt: "\<not> truthy namespace" and res: "list_namespaces self namespace w = Some (r, w')"
  obtain r0 w0 where inv: "glue_invoke (GetDatabases None) (glue_get_databases self None) w = (r0, w0)"
    by (cases "glue_invoke (GetDatabases None) (glue_get_databases self None) w")
  from glue_invoke_calls [OF inv] have c0: "calls w0 = calls w @ [GetDatabases None]" by simp
  show "\<exists>cs. calls w' = calls w @ GetDatabases None # cs"
  proof (cases r0)
    case (Inl x)
    with nt res inv have "w' = w0" by (simp add: list_namespaces_def)
    with c0 show ?thesis by simp
  next
    case first: (Inr resp)
    show ?thesis
    proof (cases "list_namespaces_loop self None [] w0")
      case None
      with nt res inv first show ?thesis by (simp add: list_namespaces_def)
    next
      case (Some y)
      from list_namespaces_loop_calls [OF Some] obtain cs where
        cs: "calls (snd y) = calls w0 @ cs" by blast
      obtain r' w'' where y: "y = (r', w'')" by (cases y)
      from nt res inv first Some y have "w' = w''"
        by (auto simp: list_namespaces_def split: sum.splits)
      with cs c0 y show ?thesis by simp
    qed
  qed
qed

theorem list_namespaces_of_a_prefix_is_empty_witness:
  "list_namespaces memory_catalog (IdStr ''db'') listing_world = Some (Inr [], listing_world)
 \<and> list_namespaces memory_catalog (IdTuple [''db'', ''inner'']) listing_world
      = Some (Inr [], listing_world)"
proof -
  have "truthy (IdStr ''db'')" and "truthy (IdTuple [''db'', ''inner''])" by simp_all
  with list_namespaces_of_a_prefix_is_empty [of "IdStr ''db''" memory_catalog listing_world]
       list_namespaces_of_a_prefix_is_empty [of "IdTuple [''db'', ''inner'']" memory_catalog listing_world]
  show ?thesis by blast
qed

section \<open>Properties of the namespace update\<close>

lemma load_namespace_properties_calls:
  assumes "load_namespace_properties self namespace w = (r, w1)"
  shows "store w1 = store w \<and> filter is_update_database (calls w1) = filter is_update_database (calls w)"
  using assms
  by (auto simp: load_namespace_properties_def
           split: sum.splits prod.splits glue_exception.splits
           dest!: glue_invoke_calls)

text \<open>
  C5. When a key is both in the removals and in the updates,
  \<^verbatim>\<open>update_namespace_properties\<close> does what loading the properties does and no
  more: it leaves the world as the load left it, it fails with the load's error if
  the load failed and with \<^verbatim>\<open>ValueError\<close> (the ambiguous update) if the
  namespace was loaded, and it issues no \<^verbatim>\<open>update_database\<close> call.
\<close>

theorem update_with_overlap_fails_without_backend_update:
  assumes "k \<in> set removal_keys" and "map_of updates k = Some v"
  shows "snd (update_namespace_properties self namespace (Some removal_keys) updates w) =
           snd (load_namespace_properties self namespace w)
       \<and> fst (update_namespace_properties self namespace (Some removal_keys) updates w) =
           (case fst (load_namespace_properties self namespace w) of
              Inl e \<Rightarrow> Inl e
            | Inr current_properties \<Rightarrow> Inl (ValueError ''Updates and deletes have an overlap''))
       \<and> filter is_update_database
            (calls (snd (update_namespace_properties self namespace (Some removal_keys) updates w))) =
          filter is_update_database (calls w)"
proof -
  obtain r w1 where load: "load_namespace_properties self namespace w = (r, w1)"
    by (cases "load_namespace_properties self namespace w")
  from assms have overlap: "list_ex (\<lambda>k. map_of updates k \<noteq> None) removal_keys"
    by (auto simp: list_ex_iff)
  have upd: "update_namespace_properties self namespace (Some removal_keys) updates w =
          (case r of Inl e \<Rightarrow> Inl e
           | Inr current_properties \<Rightarrow> Inl (ValueError ''Updates and deletes have an overlap''), w1)"
    using load overlap
    by (cases r)
       (simp_all add: update_namespace_properties_def get_updated_props_and_update_summary_def)
  from load_namespace_properties_calls [OF load] upd load show ?thesis by simp
qed

theorem update_with_overlap_fails_without_backend_update_witness:
  "update_namespace_properties memory_catalog (IdStr ''db'') (Some [''owner''])
      [(''owner'', ''carol'')] listing_world =
     (Inl (ValueError ''Updates and deletes have an overlap''),
      listing_world\<lparr>calls := [GetDatabase ''db'']\<rparr>)"
proof -
  have k: "''owner'' \<in> set [''owner'']" and u: "map_of [(''owner'', ''carol'')] ''owner'' = Some ''carol''"
    by simp_all
  have load: "load_namespace_properties memory_catalog (IdStr ''db'') listing_world =
      (Inr [(''owner'', ''bob'')], listing_world\<lparr>calls := [GetDatabase ''db'']\<rparr>)"
    by (simp add: load_namespace_properties_def identifier_to_database_def glue_invoke_def
          memory_catalog_def listing_world_def plain_database_def properties_of_database_def)
  from update_with_overlap_fails_without_backend_update [OF k u, of memory_catalog "IdStr ''db''" listing_world]
    load
  show ?thesis by (simp add: prod_eq_iff)
qed

end
